theory Spec2Isabelle
  imports Main "HOL-Library.Log_Nat"
begin

section \<open>The RTT monitor of \<^verbatim>\<open>scripts/rtt_monitor.py\<close>\<close>

text \<open>
  The development embeds the line parser \<^verbatim>\<open>RTTMonitor.parse_rtt_line\<close>, the success
  evaluator \<^verbatim>\<open>RTTMonitor.check_success_condition\<close> and the report built by
  \<^verbatim>\<open>RTTMonitor.save_results\<close>.

  Conventions of the embedding.
  \<^item> A line is a \<open>string\<close>; a \<open>char\<close> is read as the code point of the same number
    (0 to 255). The character classes below are Python's classes on that range.
  \<^item> The dictionary \<^verbatim>\<open>self.test_results\<close> is an association list in insertion order,
    as a Python \<^verbatim>\<open>dict\<close> is.
  \<^item> \<^verbatim>\<open>print\<close> appends one line to the field \<open>stdout\<close> of the monitor.
  \<^item> \<^verbatim>\<open>datetime.now().isoformat()\<close> is read twice in \<^verbatim>\<open>parse_rtt_line\<close> (for the raw
    log entry, and in \<^verbatim>\<open>TestResult.__post_init__\<close>); the two readings are parameters.
  \<^item> An exception that leaves a function is the \<open>Inl\<close> branch of its result; the monitor
    returned with it holds the mutations made before the exception.
  \<^item> \<^verbatim>\<open>int(s)\<close> raises \<^verbatim>\<open>ValueError\<close> on a string of more digits than the interpreter's
    limit, at its default of 4300 (\<^verbatim>\<open>sys.get_int_max_str_digits()\<close>); the script does not
    change it.
\<close>

subsection \<open>Data model\<close>

datatype TestStatus = INIT | RUNNING | PASS | FAIL | COMPLETE

text \<open>The value of an enumeration member (\<^verbatim>\<open>status.value\<close>).\<close>

fun status_value :: "TestStatus \<Rightarrow> string" where
  "status_value INIT = ''TEST_INIT''"
| "status_value RUNNING = ''TEST_RUNNING''"
| "status_value PASS = ''TEST_PASS''"
| "status_value FAIL = ''TEST_FAIL''"
| "status_value COMPLETE = ''TEST_COMPLETE''"

datatype exn = ValueError string | OverflowError string | ZeroDivisionError string

fun exn_message :: "exn \<Rightarrow> string" where
  "exn_message (ValueError m) = m"
| "exn_message (OverflowError m) = m"
| "exn_message (ZeroDivisionError m) = m"

text \<open>The lookup by value \<^verbatim>\<open>TestStatus(status_str)\<close>; it raises \<^verbatim>\<open>ValueError\<close> on any
  other string.\<close>

definition TestStatus_of_value :: "string \<Rightarrow> exn + TestStatus" where
  "TestStatus_of_value s =
     (if s = ''TEST_INIT'' then Inr INIT
      else if s = ''TEST_RUNNING'' then Inr RUNNING
      else if s = ''TEST_PASS'' then Inr PASS
      else if s = ''TEST_FAIL'' then Inr FAIL
      else if s = ''TEST_COMPLETE'' then Inr COMPLETE
      else Inl (ValueError (CHR 0x27 # s @ CHR 0x27 # '' is not a valid TestStatus'')))"

record TestResult =
  name :: string
  status :: TestStatus
  duration_ms :: "int option"
  timestamp :: string
  log_messages :: "string list"

text \<open>\<^verbatim>\<open>TestResult(name, status)\<close>: the two defaulted fields are filled by
  \<^verbatim>\<open>__post_init__\<close>, the timestamp from the clock reading \<open>now\<close>.\<close>

definition new_TestResult :: "string \<Rightarrow> string \<Rightarrow> TestStatus \<Rightarrow> TestResult" where
  "new_TestResult now n s =
     \<lparr>name = n, status = s, duration_ms = None, timestamp = now, log_messages = []\<rparr>"

record RawLogEntry =
  log_timestamp :: string
  raw :: string

record RTTMonitor =
  test_results :: "(string \<times> TestResult) list"
  log_buffer :: "RawLogEntry list"
  stdout :: "string list"

text \<open>The monitor after \<^verbatim>\<open>__init__\<close>.\<close>

definition init_monitor :: RTTMonitor where
  "init_monitor = \<lparr>test_results = [], log_buffer = [], stdout = []\<rparr>"

definition print_out :: "string \<Rightarrow> RTTMonitor \<Rightarrow> RTTMonitor" where
  "print_out s st = st\<lparr>stdout := stdout st @ [s]\<rparr>"

subsection \<open>Dictionary operations\<close>

definition dict_keys :: "('k \<times> 'v) list \<Rightarrow> 'k list" where
  "dict_keys d = map fst d"

definition dict_values :: "('k \<times> 'v) list \<Rightarrow> 'v list" where
  "dict_values d = map snd d"

text \<open>\<^verbatim>\<open>k in d\<close>.\<close>

definition dict_contains :: "('k \<times> 'v) list \<Rightarrow> 'k \<Rightarrow> bool" where
  "dict_contains d k = (k \<in> set (dict_keys d))"

text \<open>\<^verbatim>\<open>d[k]\<close> where the key is present.\<close>

definition dict_get :: "('k \<times> 'v) list \<Rightarrow> 'k \<Rightarrow> 'v option" where
  "dict_get d k = map_of d k"

text \<open>Mutation of the object stored under \<open>k\<close>, as in \<^verbatim>\<open>d[k].status = s\<close>; the key keeps
  its place.\<close>

definition dict_modify :: "('k \<times> 'v) list \<Rightarrow> 'k \<Rightarrow> ('v \<Rightarrow> 'v) \<Rightarrow> ('k \<times> 'v) list" where
  "dict_modify d k f = map (\<lambda>(k', v). if k' = k then (k', f v) else (k', v)) d"

text \<open>\<^verbatim>\<open>d[k] = v\<close>: a present key keeps its place, a new key goes to the end.\<close>

definition dict_setitem :: "('k \<times> 'v) list \<Rightarrow> 'k \<Rightarrow> 'v \<Rightarrow> ('k \<times> 'v) list" where
  "dict_setitem d k v =
     (if dict_contains d k then dict_modify d k (\<lambda>_. v) else d @ [(k, v)])"

subsection \<open>Strings and integers\<close>

text \<open>\<^verbatim>\<open>str.isspace\<close> on the code points 0 to 255.\<close>

definition is_space :: "char \<Rightarrow> bool" where
  "is_space c =
     (let n = (of_char c :: nat)
      in (9 \<le> n \<and> n \<le> 13) \<or> (28 \<le> n \<and> n \<le> 32) \<or> n = 133 \<or> n = 160)"

text \<open>\<^verbatim>\<open>line.strip()\<close>.\<close>

definition strip :: "string \<Rightarrow> string" where
  "strip s = rev (dropWhile is_space (rev (dropWhile is_space s)))"

text \<open>The class \<^verbatim>\<open>\d\<close>.\<close>

definition is_digit :: "char \<Rightarrow> bool" where
  "is_digit c = (let n = (of_char c :: nat) in 48 \<le> n \<and> n \<le> 57)"

text \<open>The class \<^verbatim>\<open>\w\<close>: the alphanumeric code points and the underscore.\<close>

definition is_word :: "char \<Rightarrow> bool" where
  "is_word c =
     (let n = (of_char c :: nat)
      in (48 \<le> n \<and> n \<le> 57) \<or> (65 \<le> n \<and> n \<le> 90) \<or> n = 95 \<or> (97 \<le> n \<and> n \<le> 122)
         \<or> n = 170 \<or> n = 178 \<or> n = 179 \<or> n = 181 \<or> n = 185 \<or> n = 186
         \<or> (188 \<le> n \<and> n \<le> 190) \<or> (192 \<le> n \<and> n \<le> 214) \<or> (216 \<le> n \<and> n \<le> 246)
         \<or> 248 \<le> n)"

text \<open>The number that a string of decimal digits denotes.\<close>

definition int_of_digits :: "string \<Rightarrow> int" where
  "int_of_digits s = foldl (\<lambda>a c. 10 * a + (int (of_char c) - 48)) 0 s"

text \<open>\<^verbatim>\<open>str(i)\<close>, as an f-string formats an integer.\<close>

fun str_nat :: "nat \<Rightarrow> string" where
  "str_nat n =
     (if n < 10 then [char_of (48 + n)] else str_nat (n div 10) @ [char_of (48 + n mod 10)])"

declare str_nat.simps [simp del]

definition str_int :: "int \<Rightarrow> string" where
  "str_int i = (if i < 0 then CHR ''-'' # str_nat (nat (- i)) else str_nat (nat i))"

text \<open>The default of \<^verbatim>\<open>sys.get_int_max_str_digits()\<close>.\<close>

definition int_max_str_digits :: nat where
  "int_max_str_digits = 4300"

text \<open>\<^verbatim>\<open>int(s)\<close> on a string of decimal digits (the groups \<^verbatim>\<open>(\d+)\<close>): the number it
  denotes; \<^verbatim>\<open>ValueError\<close> when the string has more digits than the limit, leading zeros
  counted.\<close>

definition py_int :: "string \<Rightarrow> exn + int" where
  "py_int s =
     (if int_max_str_digits < length s
      then Inl (ValueError
                 (''Exceeds the limit ('' @ str_nat int_max_str_digits
                    @ '' digits) for integer string conversion: value has ''
                    @ str_nat (length s)
                    @ '' digits; use sys.set_int_max_str_digits() to increase the limit''))
      else Inr (int_of_digits s))"

subsection \<open>Regular expressions\<close>

text \<open>
  The four patterns use literals, greedy repetitions \<^verbatim>\<open>c+\<close> of one character class inside
  a group, and one group of literal alternatives. A pattern is the list of its parts.
  The matcher is the backtracking matcher of \<^verbatim>\<open>re\<close>: a repetition tries its longest
  extent first and gives characters back one at a time, alternatives are tried from left
  to right, and \<^verbatim>\<open>search\<close> tries the start positions from left to right. A match is
  the list of its groups (\<^verbatim>\<open>match.groups()\<close>).
\<close>

datatype cclass = Word | Digit | AnyChar

fun in_class :: "cclass \<Rightarrow> char \<Rightarrow> bool" where
  "in_class Word c = is_word c"
| "in_class Digit c = is_digit c"
| "in_class AnyChar c = (c \<noteq> CHR 0x0A)"

datatype atom = Lit string | GroupPlus cclass | GroupAlt "string list"

fun first_some :: "('a \<Rightarrow> 'b option) \<Rightarrow> 'a list \<Rightarrow> 'b option" where
  "first_some f [] = None"
| "first_some f (x # xs) = (case f x of Some y \<Rightarrow> Some y | None \<Rightarrow> first_some f xs)"

fun match_here :: "atom list \<Rightarrow> string \<Rightarrow> string list option" where
  "match_here [] s = Some []"
| "match_here (Lit l # rs) s =
     (if take (length l) s = l then match_here rs (drop (length l) s) else None)"
| "match_here (GroupPlus c # rs) s =
     first_some (\<lambda>k. map_option ((#) (take k s)) (match_here rs (drop k s)))
       (rev [1..<Suc (length (takeWhile (in_class c) s))])"
| "match_here (GroupAlt alts # rs) s =
     first_some (\<lambda>a. if take (length a) s = a
                      then map_option ((#) a) (match_here rs (drop (length a) s)) else None)
       alts"

definition search :: "atom list \<Rightarrow> string \<Rightarrow> string list option" where
  "search p s = first_some (\<lambda>i. match_here p (drop i s)) [0..<Suc (length s)]"

text \<open>\<^verbatim>\<open>STATUS:(\w+):(.+)\<close>\<close>

definition status_pattern :: "atom list" where
  "status_pattern = [Lit ''STATUS:'', GroupPlus Word, Lit '':'', GroupPlus AnyChar]"

text \<open>\<^verbatim>\<open>RESULT:(.+):(PASS|FAIL):(\d+)\<close>\<close>

definition result_pattern :: "atom list" where
  "result_pattern =
     [Lit ''RESULT:'', GroupPlus AnyChar, Lit '':'', GroupAlt [''PASS'', ''FAIL''], Lit '':'',
      GroupPlus Digit]"

text \<open>\<^verbatim>\<open>SUMMARY:(\d+):(\d+):(\d+)\<close>\<close>

definition summary_pattern :: "atom list" where
  "summary_pattern =
     [Lit ''SUMMARY:'', GroupPlus Digit, Lit '':'', GroupPlus Digit, Lit '':'', GroupPlus Digit]"

text \<open>\<^verbatim>\<open>\[(\d+)\] \[(\w+)\] (.+)\<close>\<close>

definition log_pattern :: "atom list" where
  "log_pattern =
     [Lit ''['', GroupPlus Digit, Lit ''] ['', GroupPlus Word, Lit ''] '', GroupPlus AnyChar]"

subsection \<open>Floating-point numbers\<close>

text \<open>
  A Python \<^verbatim>\<open>float\<close> is a binary64 number. Only non-negative values occur here (the
  operands are integers read from digits), so a float is \<open>Float m e\<close>, of value
  \<open>m * 2 powi e\<close> with \<open>0 \<le> m\<close>, or infinity.
\<close>

datatype pyfloat = Float int int | Infinity

datatype pynumber = PyInt int | PyFloat pyfloat

definition float_value :: "int \<Rightarrow> int \<Rightarrow> rat" where
  "float_value m e = of_int m * 2 powi e"

text \<open>The quotient \<open>n / d\<close> rounded to the nearest integer, ties to even (\<open>0 < d\<close>).\<close>

definition div_half_even :: "int \<Rightarrow> int \<Rightarrow> int" where
  "div_half_even n d =
     (let f = n div d; r = n mod d
      in if 2 * r < d then f else if d < 2 * r then f + 1 else if even f then f else f + 1)"

text \<open>The exponent \<open>e\<close> with \<open>2 powi e \<le> a / b < 2 powi (e + 1)\<close> (\<open>0 < a\<close>, \<open>0 < b\<close>).\<close>

definition floor_log2 :: "int \<Rightarrow> int \<Rightarrow> int" where
  "floor_log2 a b =
     (let e0 = bitlen a - bitlen b
      in if (if 0 \<le> e0 then b * 2 ^ nat e0 \<le> a else b \<le> a * 2 ^ nat (- e0))
         then e0 else e0 - 1)"

text \<open>
  The float nearest to \<open>a / b\<close> (\<open>0 \<le> a\<close>, \<open>0 < b\<close>), ties to even: the significand has
  53 bits, so the spacing of the floats around \<open>a / b\<close> is \<open>2 powi (floor_log2 a b - 52)\<close>,
  and \<open>2 powi -1074\<close> below the normal range; a rounded value of \<open>2 ^ 1024\<close> or more is
  infinity.
\<close>

definition round_to_double :: "int \<Rightarrow> int \<Rightarrow> pyfloat" where
  "round_to_double a b =
     (if a = 0 then Float 0 0
      else let e = max (floor_log2 a b) (- 1022) - 52;
               m = (if 0 \<le> e then div_half_even a (b * 2 ^ nat e)
                    else div_half_even (a * 2 ^ nat (- e)) b)
           in if 0 \<le> e \<and> 2 ^ 1024 \<le> m * 2 ^ nat e then Infinity else Float m e)"

text \<open>\<^verbatim>\<open>a / b\<close> on integers \<open>0 \<le> a\<close>, \<open>0 \<le> b\<close>: the correctly rounded quotient, and
  \<^verbatim>\<open>OverflowError\<close> when it is out of the range of a float.\<close>

definition int_true_divide :: "int \<Rightarrow> int \<Rightarrow> exn + pyfloat" where
  "int_true_divide a b =
     (if b = 0 then Inl (ZeroDivisionError ''division by zero'')
      else case round_to_double a b of
             Infinity \<Rightarrow> Inl (OverflowError ''integer division result too large for a float'')
           | Float m e \<Rightarrow> Inr (Float m e))"

text \<open>\<^verbatim>\<open>x * n\<close> for a float \<open>x\<close> and an integer \<open>0 \<le> n\<close> that is exactly a float: the
  rounded product, infinity on overflow (a float product raises no exception).\<close>

definition float_mul_int :: "pyfloat \<Rightarrow> int \<Rightarrow> pyfloat" where
  "float_mul_int x n =
     (case x of
        Infinity \<Rightarrow> Infinity
      | Float m e \<Rightarrow>
          (if 0 \<le> e then round_to_double (m * n * 2 ^ nat e) 1
           else round_to_double (m * n) (2 ^ nat (- e))))"

subsection \<open>The line parser\<close>

record RunSummary =
  total :: int
  passed :: int
  failed :: int
  success_rate :: pynumber

text \<open>
  \<^verbatim>\<open>parse_rtt_line(self, line)\<close>. \<open>now\<close> is the clock reading stored in the raw log
  entry, \<open>now'\<close> the one a new \<^verbatim>\<open>TestResult\<close> takes. The result is \<open>Inr None\<close> for
  \<^verbatim>\<open>return\<close> and \<^verbatim>\<open>return None\<close>, \<open>Inr (Some d)\<close> for the returned dictionary, and
  \<open>Inl e\<close> for an exception that leaves the function.
\<close>

text \<open>Lines 93 to 106: the status message.\<close>

definition parse_status :: "string \<Rightarrow> string \<Rightarrow> RTTMonitor \<Rightarrow> RTTMonitor" where
  "parse_status now' line st =
     (case search status_pattern line of
        None \<Rightarrow> st
      | Some gs \<Rightarrow>
          (let status_str = gs ! 0; test_name = gs ! 1
           in case TestStatus_of_value status_str of
                Inr s \<Rightarrow>
                  print_out (''[TEST_STATUS] '' @ test_name @ '': '' @ status_value s)
                    (if \<not> dict_contains (test_results st) test_name
                     then st\<lparr>test_results :=
                            dict_setitem (test_results st) test_name
                              (new_TestResult now' test_name s)\<rparr>
                     else st\<lparr>test_results :=
                            dict_modify (test_results st) test_name (\<lambda>r. r\<lparr>status := s\<rparr>)\<rparr>)
              | Inl e \<Rightarrow> print_out (''[RTT_MONITOR] Unknown status: '' @ status_str) st))"

text \<open>Lines 108 to 118: the result message. \<^verbatim>\<open>int(duration)\<close> is evaluated after the
  status is set and before the line is printed; when it raises, the exception leaves
  \<^verbatim>\<open>parse_rtt_line\<close>: the first component of the result is the exception, if any.\<close>

definition parse_result :: "string \<Rightarrow> RTTMonitor \<Rightarrow> exn option \<times> RTTMonitor" where
  "parse_result line st =
     (case search result_pattern line of
        None \<Rightarrow> (None, st)
      | Some gs \<Rightarrow>
          (let test_name = gs ! 0; result_str = gs ! 1; duration = gs ! 2;
               s = (if result_str = ''PASS'' then PASS else FAIL);
               out = ''[TEST_RESULT] '' @ test_name @ '': '' @ result_str @ '' (''
                       @ duration @ ''ms)''
           in if dict_contains (test_results st) test_name
              then (let st1 = st\<lparr>test_results :=
                                  dict_modify (test_results st) test_name
                                    (\<lambda>r. r\<lparr>status := s\<rparr>)\<rparr>
                    in case py_int duration of
                         Inl e \<Rightarrow> (Some e, st1)
                       | Inr d \<Rightarrow>
                           (None,
                            print_out out
                              (st1\<lparr>test_results :=
                                     dict_modify (test_results st1) test_name
                                       (\<lambda>r. r\<lparr>duration_ms := Some d\<rparr>)\<rparr>)))
              else (None, print_out out st)))"

text \<open>Lines 120 to 140: the summary, which returns, and otherwise the regular log
  message. \<^verbatim>\<open>map(int, ...)\<close> converts the three groups in their order, before anything is
  printed.\<close>

definition parse_summary_or_log ::
  "string \<Rightarrow> RTTMonitor \<Rightarrow> (exn + RunSummary option) \<times> RTTMonitor" where
  "parse_summary_or_log line st =
     (case search summary_pattern line of
        Some gs \<Rightarrow>
          (case py_int (gs ! 0) of
             Inl e \<Rightarrow> (Inl e, st)
           | Inr t \<Rightarrow>
               (case py_int (gs ! 1) of
                  Inl e \<Rightarrow> (Inl e, st)
                | Inr p \<Rightarrow>
                    (case py_int (gs ! 2) of
                       Inl e \<Rightarrow> (Inl e, st)
                     | Inr f \<Rightarrow>
                         (let st' = print_out (''[TEST_SUMMARY] Total: '' @ str_int t
                                                 @ '', Passed: '' @ str_int p
                                                 @ '', Failed: '' @ str_int f) st
                          in if t > 0
                             then (case int_true_divide p t of
                                     Inl e \<Rightarrow> (Inl e, st')
                                   | Inr q \<Rightarrow>
                                       (Inr (Some \<lparr>total = t, passed = p, failed = f,
                                                   success_rate =
                                                     PyFloat (float_mul_int q 100)\<rparr>), st'))
                             else (Inr (Some \<lparr>total = t, passed = p, failed = f,
                                              success_rate = PyInt 0\<rparr>), st')))))
      | None \<Rightarrow>
          (case search log_pattern line of
             Some gs \<Rightarrow>
               (let level = gs ! 1; message = gs ! 2
                in (Inr None, print_out (''['' @ level @ ''] '' @ message) st))
           | None \<Rightarrow> (Inr None, print_out (''[RTT] '' @ line) st)))"

definition parse_rtt_line ::
  "string \<Rightarrow> string \<Rightarrow> string \<Rightarrow> RTTMonitor \<Rightarrow> (exn + RunSummary option) \<times> RTTMonitor" where
  "parse_rtt_line now now' line0 st =
     (let line = strip line0
      in if line = [] then (Inr None, st)
         else (case parse_result line
                      (parse_status now' line
                        (st\<lparr>log_buffer :=
                              log_buffer st @ [\<lparr>log_timestamp = now, raw = line\<rparr>]\<rparr>)) of
                 (Some e, st2) \<Rightarrow> (Inl e, st2)
               | (None, st2) \<Rightarrow> parse_summary_or_log line st2))"

text \<open>Any succession of calls of \<^verbatim>\<open>parse_rtt_line\<close> on one monitor, one \<open>(now, now', line)\<close>
  for each call. The monitoring loop makes such a succession, which it ends at an
  exception, on success or at the timeout.\<close>

fun parse_lines :: "(string \<times> string \<times> string) list \<Rightarrow> RTTMonitor \<Rightarrow> RTTMonitor" where
  "parse_lines [] st = st"
| "parse_lines ((now, now', line) # ls) st = parse_lines ls (snd (parse_rtt_line now now' line st))"

subsection \<open>The success evaluator\<close>

text \<open>
  \<^verbatim>\<open>self.success_conditions\<close> holds a \<^verbatim>\<open>TestStatus\<close> and a function of the dictionary;
  \<^verbatim>\<open>check_success_condition\<close> tells them apart by \<^verbatim>\<open>isinstance\<close> and \<^verbatim>\<open>callable\<close>. A
  function may raise: its result is \<open>exn + bool\<close>.
\<close>

datatype condition =
  StatusCondition TestStatus
| CallableCondition "(string \<times> TestResult) list \<Rightarrow> exn + bool"

definition success_conditions :: "condition list" where
  "success_conditions =
     [StatusCondition COMPLETE,
      CallableCondition (\<lambda>results. Inr (list_all (\<lambda>r. status r = PASS) (dict_values results)))]"

fun check_conditions :: "condition list \<Rightarrow> RTTMonitor \<Rightarrow> bool \<times> RTTMonitor" where
  "check_conditions [] st = (False, st)"
| "check_conditions (StatusCondition c # cs) st =
     (if list_ex (\<lambda>result. status result = c) (dict_values (test_results st)) then (True, st)
      else check_conditions cs st)"
| "check_conditions (CallableCondition f # cs) st =
     (case f (test_results st) of
        Inr b \<Rightarrow> if b then (True, st) else check_conditions cs st
      | Inl e \<Rightarrow>
          check_conditions cs
            (print_out (''[RTT_MONITOR] Error in success condition: '' @ exn_message e) st))"

definition check_success_condition :: "RTTMonitor \<Rightarrow> bool \<times> RTTMonitor" where
  "check_success_condition st = check_conditions success_conditions st"

subsection \<open>The report\<close>

record ResultEntry =
  entry_name :: string
  entry_status :: string
  entry_duration_ms :: "int option"
  entry_timestamp :: string
  entry_log_messages :: "string list"

record ReportSummary =
  total_tests :: int
  passed_tests :: int
  failed_tests :: int

record Report =
  report_test_results :: "(string \<times> ResultEntry) list"
  report_log_buffer :: "RawLogEntry list"
  summary :: ReportSummary

text \<open>The dictionary \<^verbatim>\<open>output_data\<close> of \<^verbatim>\<open>save_results\<close> (lines 214 to 228).\<close>

definition output_data :: "RTTMonitor \<Rightarrow> Report" where
  "output_data st =
     \<lparr>report_test_results =
        map (\<lambda>(n, result).
               (n, \<lparr>entry_name = name result, entry_status = status_value (status result),
                     entry_duration_ms = duration_ms result,
                     entry_timestamp = timestamp result,
                     entry_log_messages = log_messages result\<rparr>))
          (test_results st),
      report_log_buffer = log_buffer st,
      summary =
        \<lparr>total_tests = int (length (test_results st)),
         passed_tests =
           sum_list (map (\<lambda>r. 1) (filter (\<lambda>r. status r = PASS) (dict_values (test_results st)))),
         failed_tests =
           sum_list (map (\<lambda>r. 1) (filter (\<lambda>r. status r = FAIL) (dict_values (test_results st))))\<rparr>\<rparr>"

text \<open>\<^verbatim>\<open>save_results(self, filename)\<close>: the document handed to \<^verbatim>\<open>json.dump\<close>, and the
  monitor after the closing \<^verbatim>\<open>print\<close>. The file system is not modelled.\<close>

definition save_results :: "string \<Rightarrow> RTTMonitor \<Rightarrow> Report \<times> RTTMonitor" where
  "save_results filename st =
     (output_data st, print_out (''[RTT_MONITOR] Results saved to '' @ filename) st)"

section \<open>Properties\<close>

subsection \<open>What the stages of the parser leave alone\<close>

lemma print_out_simps [simp]:
  "test_results (print_out s st) = test_results st"
  "log_buffer (print_out s st) = log_buffer st"
  "stdout (print_out s st) = stdout st @ [s]"
  by (simp_all add: print_out_def)

lemma parse_status_log_buffer [simp]: "log_buffer (parse_status now' l st) = log_buffer st"
  by (simp add: parse_status_def Let_def split: option.splits sum.splits)

lemma parse_result_log_buffer [simp]: "log_buffer (snd (parse_result l st)) = log_buffer st"
  by (simp add: parse_result_def Let_def split: option.splits sum.splits)

lemma parse_summary_or_log_log_buffer [simp]:
  "log_buffer (snd (parse_summary_or_log l st)) = log_buffer st"
  by (simp add: parse_summary_or_log_def Let_def split: option.splits sum.splits)

lemma parse_summary_or_log_test_results [simp]:
  "test_results (snd (parse_summary_or_log l st)) = test_results st"
  by (simp add: parse_summary_or_log_def Let_def split: option.splits sum.splits)

lemma strip_boot_line: "strip ''  [12] [INFO] boot  '' = ''[12] [INFO] boot''"
  by (simp add: strip_def is_space_def)

lemma strip_blank_line: "strip [CHR 0x20, CHR 0x09, CHR 0x0A] = []"
  by (simp add: strip_def is_space_def)

subsection \<open>Dictionaries\<close>

lemma dict_keys_modify [simp]: "dict_keys (dict_modify d k f) = dict_keys d"
  by (induction d) (auto simp: dict_keys_def dict_modify_def)

lemma dict_keys_append [simp]: "dict_keys (d @ d') = dict_keys d @ dict_keys d'"
  by (simp add: dict_keys_def)

lemma dict_contains_modify [simp]: "dict_contains (dict_modify d k f) k' = dict_contains d k'"
  by (simp add: dict_contains_def)

lemma dict_contains_get: "dict_contains d k \<longleftrightarrow> (\<exists>v. dict_get d k = Some v)"
  by (induction d) (auto simp: dict_contains_def dict_keys_def dict_get_def)

lemma dict_get_modify:
  "dict_get (dict_modify d k f) k' = (if k' = k then map_option f (dict_get d k) else dict_get d k')"
  by (induction d) (auto simp: dict_get_def dict_modify_def)

lemma dict_get_append_new:
  "\<not> dict_contains d k \<Longrightarrow>
     dict_get (d @ [(k, v)]) k' = (if k' = k then Some v else dict_get d k')"
  by (induction d) (auto simp: dict_get_def dict_contains_def dict_keys_def)

lemma dict_setitem_new: "\<not> dict_contains d k \<Longrightarrow> dict_setitem d k v = d @ [(k, v)]"
  by (simp add: dict_setitem_def)

subsection \<open>The registry after each stage\<close>

lemma parse_status_test_results:
  "test_results (parse_status now' l st) =
     (case search status_pattern l of
        None \<Rightarrow> test_results st
      | Some gs \<Rightarrow>
          (case TestStatus_of_value (gs ! 0) of
             Inl e \<Rightarrow> test_results st
           | Inr s \<Rightarrow>
               if dict_contains (test_results st) (gs ! 1)
               then dict_modify (test_results st) (gs ! 1) (\<lambda>r. r\<lparr>status := s\<rparr>)
               else test_results st @ [(gs ! 1, new_TestResult now' (gs ! 1) s)]))"
  by (simp add: parse_status_def Let_def dict_setitem_new split: option.splits sum.splits)

lemma parse_result_test_results:
  "test_results (snd (parse_result l st)) =
     (case search result_pattern l of
        None \<Rightarrow> test_results st
      | Some gs \<Rightarrow>
          if dict_contains (test_results st) (gs ! 0)
          then (case py_int (gs ! 2) of
                  Inl e \<Rightarrow>
                    dict_modify (test_results st) (gs ! 0)
                      (\<lambda>r. r\<lparr>status := (if gs ! 1 = ''PASS'' then PASS else FAIL)\<rparr>)
                | Inr d \<Rightarrow>
                    dict_modify
                      (dict_modify (test_results st) (gs ! 0)
                         (\<lambda>r. r\<lparr>status := (if gs ! 1 = ''PASS'' then PASS else FAIL)\<rparr>))
                      (gs ! 0) (\<lambda>r. r\<lparr>duration_ms := Some d\<rparr>))
          else test_results st)"
  by (simp add: parse_result_def Let_def split: option.splits sum.splits)

lemma parse_result_test_results_cong:
  "test_results st = test_results st' \<Longrightarrow>
     test_results (snd (parse_result l st)) = test_results (snd (parse_result l st'))"
  by (simp only: parse_result_test_results)

lemma parse_status_test_results_log_buffer [simp]:
  "test_results (parse_status now' l (st\<lparr>log_buffer := b\<rparr>))
     = test_results (parse_status now' l st)"
  by (simp add: parse_status_test_results split: option.splits sum.splits)

text \<open>The call on a line that is not empty after stripping: the result stage, then its
  exception or the summary stage.\<close>

lemma parse_rtt_line_nonempty:
  "strip line \<noteq> [] \<Longrightarrow>
     parse_rtt_line now now' line st =
       (case fst (parse_result (strip line)
                    (parse_status now' (strip line)
                      (st\<lparr>log_buffer :=
                            log_buffer st @ [\<lparr>log_timestamp = now, raw = strip line\<rparr>]\<rparr>))) of
          Some e \<Rightarrow>
            (Inl e,
             snd (parse_result (strip line)
                    (parse_status now' (strip line)
                      (st\<lparr>log_buffer :=
                            log_buffer st @ [\<lparr>log_timestamp = now, raw = strip line\<rparr>]\<rparr>))))
        | None \<Rightarrow>
            parse_summary_or_log (strip line)
              (snd (parse_result (strip line)
                      (parse_status now' (strip line)
                        (st\<lparr>log_buffer :=
                              log_buffer st @ [\<lparr>log_timestamp = now, raw = strip line\<rparr>]\<rparr>)))))"
  by (simp add: parse_rtt_line_def Let_def split: prod.splits option.splits)

lemma parse_rtt_line_test_results:
  "test_results (snd (parse_rtt_line now now' line st)) =
     (if strip line = [] then test_results st
      else test_results (snd (parse_result (strip line) (parse_status now' (strip line) st))))"
proof (cases "strip line = []")
  case True
  then show ?thesis by (simp add: parse_rtt_line_def)
next
  case False
  have "test_results
          (snd (parse_result (strip line)
                  (parse_status now' (strip line)
                    (st\<lparr>log_buffer :=
                          log_buffer st @ [\<lparr>log_timestamp = now, raw = strip line\<rparr>]\<rparr>))))
        = test_results (snd (parse_result (strip line) (parse_status now' (strip line) st)))"
    by (rule parse_result_test_results_cong) simp
  with False show ?thesis
    by (simp add: parse_rtt_line_nonempty split: option.splits)
qed

lemma parse_rtt_line_log_buffer:
  "log_buffer (snd (parse_rtt_line now now' line st)) =
     (if strip line = [] then log_buffer st
      else log_buffer st @ [\<lparr>log_timestamp = now, raw = strip line\<rparr>])"
  by (simp add: parse_rtt_line_nonempty split: option.splits) (simp add: parse_rtt_line_def)


lemma search_empty:
  "search status_pattern [] = None" "search result_pattern [] = None"
  "search summary_pattern [] = None" "search log_pattern [] = None"
  by (simp_all add: search_def status_pattern_def result_pattern_def summary_pattern_def
        log_pattern_def)

lemma parse_result_stdout: "\<exists>out. stdout (snd (parse_result l st)) = stdout st @ out"
  by (simp add: parse_result_def Let_def split: option.splits sum.splits)

lemma parse_summary_or_log_stdout:
  "\<exists>out. stdout (snd (parse_summary_or_log l st)) = stdout st @ out"
  by (simp add: parse_summary_or_log_def Let_def split: option.splits sum.splits)

lemma parse_rtt_line_stdout:
  assumes "strip line \<noteq> []"
  shows "\<exists>out. stdout (snd (parse_rtt_line now now' line st))
               = stdout (parse_status now' (strip line)
                           (st\<lparr>log_buffer :=
                                 log_buffer st @ [\<lparr>log_timestamp = now, raw = strip line\<rparr>]\<rparr>))
                 @ out"
proof -
  let ?st1 = "parse_status now' (strip line)
                (st\<lparr>log_buffer := log_buffer st @ [\<lparr>log_timestamp = now, raw = strip line\<rparr>]\<rparr>)"
  obtain o2 where o2: "stdout (snd (parse_result (strip line) ?st1)) = stdout ?st1 @ o2"
    using parse_result_stdout by blast
  obtain o3 where o3:
    "stdout (snd (parse_summary_or_log (strip line) (snd (parse_result (strip line) ?st1))))
       = stdout (snd (parse_result (strip line) ?st1)) @ o3"
    using parse_summary_or_log_stdout by blast
  show ?thesis
  proof (cases "fst (parse_result (strip line) ?st1)")
    case None
    with assms o2 o3 have "stdout (snd (parse_rtt_line now now' line st)) = stdout ?st1 @ (o2 @ o3)"
      by (simp add: parse_rtt_line_nonempty)
    then show ?thesis ..
  next
    case (Some e)
    with assms o2 have "stdout (snd (parse_rtt_line now now' line st)) = stdout ?st1 @ o2"
      by (simp add: parse_rtt_line_nonempty)
    then show ?thesis ..
  qed
qed

subsection \<open>The groups of a match\<close>

lemma first_some_SomeD: "first_some f xs = Some y \<Longrightarrow> \<exists>x \<in> set xs. f x = Some y"
  by (induction xs) (auto split: option.splits)

lemma match_here_length:
  "match_here p s = Some gs \<Longrightarrow>
     length gs = length (filter (\<lambda>a. case a of Lit _ \<Rightarrow> False | _ \<Rightarrow> True) p)"
proof (induction p arbitrary: s gs)
  case Nil
  then show ?case by simp
next
  case (Cons a p)
  show ?case
  proof (cases a)
    case (Lit l)
    with Cons show ?thesis by (auto split: if_splits)
  next
    case (GroupPlus c)
    with Cons.prems obtain k g where "match_here p (drop k s) = Some g" "gs = take k s # g"
      by (auto dest!: first_some_SomeD)
    with Cons.IH GroupPlus show ?thesis by auto
  next
    case (GroupAlt alts)
    with Cons.prems obtain b g where "match_here p (drop (length b) s) = Some g" "gs = b # g"
      by (auto dest!: first_some_SomeD split: if_splits)
    with Cons.IH GroupAlt show ?thesis by auto
  qed
qed

lemma search_length:
  "search p s = Some gs \<Longrightarrow>
     length gs = length (filter (\<lambda>a. case a of Lit _ \<Rightarrow> False | _ \<Rightarrow> True) p)"
  by (auto simp: search_def dest!: first_some_SomeD match_here_length)

lemma search_status_groups:
  assumes "search status_pattern l = Some gs"
  shows "gs = [gs ! 0, gs ! 1]"
proof -
  from search_length [OF assms] have "length gs = 2"
    by (simp add: status_pattern_def)
  then show ?thesis
    by (auto simp: numeral_2_eq_2 length_Suc_conv)
qed

lemma search_three_groups:
  assumes "search p l = Some gs"
    and "p = result_pattern \<or> p = summary_pattern \<or> p = log_pattern"
  shows "gs = [gs ! 0, gs ! 1, gs ! 2]"
proof -
  from search_length [OF assms(1)] assms(2) have "length gs = 3"
    by (auto simp: result_pattern_def summary_pattern_def log_pattern_def)
  then show ?thesis
    by (auto simp: numeral_3_eq_3 length_Suc_conv)
qed

subsection \<open>Keys and records of the registry\<close>

lemma parse_status_keys:
  "dict_keys (test_results (parse_status now' l st)) =
     dict_keys (test_results st) @
       (case search status_pattern l of
          None \<Rightarrow> []
        | Some gs \<Rightarrow>
            (case TestStatus_of_value (gs ! 0) of
               Inl e \<Rightarrow> []
             | Inr s \<Rightarrow> if dict_contains (test_results st) (gs ! 1) then [] else [gs ! 1]))"
  by (simp add: parse_status_test_results dict_keys_def[of "[_]"] split: option.splits sum.splits)

lemma parse_result_keys [simp]:
  "dict_keys (test_results (snd (parse_result l st))) = dict_keys (test_results st)"
  by (simp add: parse_result_test_results split: option.splits sum.splits)

lemma parse_result_contains [simp]:
  "dict_contains (test_results (snd (parse_result l st))) k = dict_contains (test_results st) k"
  by (simp add: dict_contains_def)

lemma parse_status_persist:
  assumes "dict_get (test_results st) n = Some r"
  shows "\<exists>r'. dict_get (test_results (parse_status now' l st)) n = Some r'
              \<and> name r' = name r \<and> timestamp r' = timestamp r
              \<and> log_messages r' = log_messages r \<and> duration_ms r' = duration_ms r"
proof -
  from assms have c: "dict_contains (test_results st) n"
    by (auto simp: dict_contains_get)
  show ?thesis
    using assms c
    by (auto simp: parse_status_test_results dict_get_modify dict_get_append_new
          split: option.splits sum.splits)
qed

lemma parse_result_persist:
  assumes "dict_get (test_results st) n = Some r"
  shows "\<exists>r'. dict_get (test_results (snd (parse_result l st))) n = Some r'
              \<and> name r' = name r \<and> timestamp r' = timestamp r
              \<and> log_messages r' = log_messages r"
  using assms
  by (auto simp: parse_result_test_results dict_get_modify split: option.splits sum.splits)

lemma parse_rtt_line_persist:
  assumes "dict_get (test_results st) n = Some r"
  shows "\<exists>r'. dict_get (test_results (snd (parse_rtt_line now now' line st))) n = Some r'
              \<and> name r' = name r \<and> timestamp r' = timestamp r
              \<and> log_messages r' = log_messages r"
proof (cases "strip line = []")
  case True
  with assms show ?thesis by (simp add: parse_rtt_line_test_results)
next
  case False
  from parse_status_persist [OF assms, of now' "strip line"]
  obtain r1 where r1: "dict_get (test_results (parse_status now' (strip line) st)) n = Some r1"
    "name r1 = name r" "timestamp r1 = timestamp r" "log_messages r1 = log_messages r"
    by blast
  from parse_result_persist [OF r1(1), of "strip line"] r1(2-4) False
  show ?thesis
    by (auto simp: parse_rtt_line_test_results)
qed

lemma parse_rtt_line_keys:
  "dict_keys (test_results (snd (parse_rtt_line now now' line st))) =
     dict_keys (test_results st) @
       (case search status_pattern (strip line) of
          None \<Rightarrow> []
        | Some gs \<Rightarrow>
            (case TestStatus_of_value (gs ! 0) of
               Inl e \<Rightarrow> []
             | Inr s \<Rightarrow> if dict_contains (test_results st) (gs ! 1) then [] else [gs ! 1]))"
  by (simp add: parse_rtt_line_test_results parse_status_keys search_empty)

lemma parse_rtt_line_distinct:
  "distinct (dict_keys (test_results st)) \<Longrightarrow>
     distinct (dict_keys (test_results (snd (parse_rtt_line now now' line st))))"
  by (auto simp: parse_rtt_line_keys dict_contains_def split: option.splits sum.splits)

lemma parse_lines_keys:
  "\<exists>new. dict_keys (test_results (parse_lines ls st)) = dict_keys (test_results st) @ new"
proof (induction ls arbitrary: st)
  case Nil
  then show ?case by simp
next
  case (Cons x ls)
  obtain now now' line where x: "x = (now, now', line)"
    by (cases x)
  from Cons.IH [of "snd (parse_rtt_line now now' line st)"] parse_rtt_line_keys [of now now' line st]
  show ?case
    by (auto simp: x)
qed

lemma parse_lines_distinct:
  "distinct (dict_keys (test_results st)) \<Longrightarrow>
     distinct (dict_keys (test_results (parse_lines ls st)))"
proof (induction ls arbitrary: st)
  case Nil
  then show ?case by simp
next
  case (Cons x ls)
  obtain now now' line where x: "x = (now, now', line)"
    by (cases x)
  from Cons.IH [OF parse_rtt_line_distinct [OF Cons.prems, of now now' line]]
  show ?case
    by (simp add: x)
qed

lemma parse_lines_persist:
  "dict_get (test_results st) n = Some r \<Longrightarrow>
     \<exists>r'. dict_get (test_results (parse_lines ls st)) n = Some r'
          \<and> name r' = name r \<and> timestamp r' = timestamp r \<and> log_messages r' = log_messages r"
proof (induction ls arbitrary: st r)
  case Nil
  then show ?case by simp
next
  case (Cons x ls)
  obtain now now' line where x: "x = (now, now', line)"
    by (cases x)
  from parse_rtt_line_persist [OF Cons.prems, of now now' line]
  obtain r1 where r1: "dict_get (test_results (snd (parse_rtt_line now now' line st))) n = Some r1"
    "name r1 = name r" "timestamp r1 = timestamp r" "log_messages r1 = log_messages r"
    by blast
  from Cons.IH [OF r1(1)] r1(2-4) show ?case
    by (auto simp: x)
qed

lemma parse_rtt_line_creates:
  assumes "search status_pattern (strip line) = Some [tok, n]"
    and "TestStatus_of_value tok = Inr s"
    and "\<not> dict_contains (test_results st) n"
  shows "\<exists>r. dict_get (test_results (snd (parse_rtt_line now now' line st))) n = Some r
             \<and> name r = n \<and> timestamp r = now' \<and> log_messages r = []"
proof -
  from assms(1) have ne: "strip line \<noteq> []"
    by (auto simp: search_empty)
  have "dict_get (test_results (parse_status now' (strip line) st)) n
          = Some (new_TestResult now' n s)"
    using assms by (simp add: parse_status_test_results dict_get_append_new)
  from parse_result_persist [OF this, of "strip line"] ne show ?thesis
    by (auto simp: parse_rtt_line_test_results new_TestResult_def)
qed

subsection \<open>The raw log buffer\<close>

text \<open>
  Claim C8. Parsing a line appends exactly one entry to the raw log buffer if and only if
  the line is not empty after stripping. The entry holds the stripped line and the clock
  reading, whatever the line matches (the statement has no hypothesis on the four
  patterns, and holds as well when the call ends in an exception). A line that is empty
  after stripping returns \<^verbatim>\<open>None\<close> and leaves the whole monitor as it was.
\<close>

theorem raw_log_one_entry_per_nonempty_line:
  "(strip line \<noteq> [] \<longrightarrow>
      log_buffer (snd (parse_rtt_line now now' line st))
        = log_buffer st @ [\<lparr>log_timestamp = now, raw = strip line\<rparr>])
   \<and> (strip line = [] \<longrightarrow> parse_rtt_line now now' line st = (Inr None, st))
   \<and> (length (log_buffer (snd (parse_rtt_line now now' line st))) = Suc (length (log_buffer st))
        \<longleftrightarrow> strip line \<noteq> [])"
  by (simp add: parse_rtt_line_log_buffer) (simp add: parse_rtt_line_def)

theorem raw_log_one_entry_per_nonempty_line_witness:
  "strip ''  [12] [INFO] boot  '' \<noteq> []
   \<and> log_buffer (snd (parse_rtt_line ''T0'' ''T1'' ''  [12] [INFO] boot  '' init_monitor))
       = [\<lparr>log_timestamp = ''T0'', raw = ''[12] [INFO] boot''\<rparr>]
   \<and> strip [CHR 0x20, CHR 0x09, CHR 0x0A] = []
   \<and> parse_rtt_line ''T0'' ''T1'' [CHR 0x20, CHR 0x09, CHR 0x0A] init_monitor
       = (Inr None, init_monitor)"
  using raw_log_one_entry_per_nonempty_line
          [of "''  [12] [INFO] boot  ''" "''T0''" "''T1''" init_monitor]
        raw_log_one_entry_per_nonempty_line
          [of "[CHR 0x20, CHR 0x09, CHR 0x0A]" "''T0''" "''T1''" init_monitor]
  by (simp add: strip_boot_line strip_blank_line init_monitor_def)

subsection \<open>The success evaluator\<close>

lemma check_success_condition_eq:
  "check_success_condition st =
     (list_ex (\<lambda>r. status r = COMPLETE) (dict_values (test_results st))
        \<or> list_all (\<lambda>r. status r = PASS) (dict_values (test_results st)), st)"
  by (simp add: check_success_condition_def success_conditions_def)

text \<open>
  Claim C1. The claim says that \<^verbatim>\<open>check_success_condition\<close> is false on an empty
  registry. On the monitor that \<^verbatim>\<open>__init__\<close> builds it is true: no record is
  \<^verbatim>\<open>COMPLETE\<close>, and \<^verbatim>\<open>all\<close> over no record is true. The same holds after a first line
  that is no status message, so that the monitoring loop would stop there.
\<close>

theorem check_success_condition_empty_registry:
  "check_success_condition init_monitor = (True, init_monitor)
   \<and> test_results (snd (parse_rtt_line ''T0'' ''T1'' ''[0] [INFO] boot'' init_monitor)) = []
   \<and> fst (check_success_condition
             (snd (parse_rtt_line ''T0'' ''T1'' ''[0] [INFO] boot'' init_monitor))) = True"
  by code_simp

text \<open>
  Claim C9. \<^verbatim>\<open>check_success_condition\<close> leaves the monitor as it was (the registry, the
  raw log and the output: the function of the second condition never raises, so nothing
  is printed), its result depends on the registry only, and a second call returns what the
  first returned.
\<close>

theorem check_success_condition_pure:
  "snd (check_success_condition st) = st
   \<and> (test_results st1 = test_results st2 \<longrightarrow>
        fst (check_success_condition st1) = fst (check_success_condition st2))
   \<and> fst (check_success_condition (snd (check_success_condition st)))
       = fst (check_success_condition st)"
  by (simp add: check_success_condition_eq)

theorem check_success_condition_pure_witness:
  "test_results \<lparr>test_results = [(''t1'', new_TestResult ''T1'' ''t1'' PASS)],
                  log_buffer = [], stdout = []\<rparr>
     = test_results \<lparr>test_results = [(''t1'', new_TestResult ''T1'' ''t1'' PASS)],
                      log_buffer = [\<lparr>log_timestamp = ''T0'', raw = ''boot''\<rparr>],
                      stdout = [''[RTT] boot'']\<rparr>
   \<and> fst (check_success_condition
            \<lparr>test_results = [(''t1'', new_TestResult ''T1'' ''t1'' PASS)],
             log_buffer = [], stdout = []\<rparr>)
     = fst (check_success_condition
            \<lparr>test_results = [(''t1'', new_TestResult ''T1'' ''t1'' PASS)],
             log_buffer = [\<lparr>log_timestamp = ''T0'', raw = ''boot''\<rparr>],
             stdout = [''[RTT] boot'']\<rparr>)"
  using check_success_condition_pure
          [of init_monitor
              "\<lparr>test_results = [(''t1'', new_TestResult ''T1'' ''t1'' PASS)],
                log_buffer = [], stdout = []\<rparr>"
              "\<lparr>test_results = [(''t1'', new_TestResult ''T1'' ''t1'' PASS)],
                log_buffer = [\<lparr>log_timestamp = ''T0'', raw = ''boot''\<rparr>],
                stdout = [''[RTT] boot'']\<rparr>"]
  by simp

subsection \<open>The report\<close>

lemma sum_list_ones: "sum_list (map (\<lambda>r. 1::int) xs) = int (length xs)"
  by (induction xs) simp_all

lemma status_partition:
  "length (filter (\<lambda>r. status r = PASS) xs) + length (filter (\<lambda>r. status r = FAIL) xs)
     + length (filter (\<lambda>r. status r \<noteq> PASS \<and> status r \<noteq> FAIL) xs) = length xs"
  by (induction xs) auto

lemma neither_pass_nor_fail:
  "(status r \<noteq> PASS \<and> status r \<noteq> FAIL)
     = (status r = INIT \<or> status r = RUNNING \<or> status r = COMPLETE)"
  by (cases "status r") simp_all

lemma summary_output_data:
  "summary (output_data st) =
     \<lparr>total_tests = int (length (test_results st)),
      passed_tests = int (length (filter (\<lambda>r. status r = PASS) (dict_values (test_results st)))),
      failed_tests = int (length (filter (\<lambda>r. status r = FAIL) (dict_values (test_results st))))\<rparr>"
  by (simp add: output_data_def sum_list_ones)

lemma three_tests_run:
  "parse_lines
     [(''T0'', ''T1'', ''STATUS:TEST_PASS:t1''), (''T2'', ''T3'', ''STATUS:TEST_FAIL:t2''),
      (''T4'', ''T5'', ''STATUS:TEST_RUNNING:t3''), (''T6'', ''T7'', ''SUMMARY:10:7:3'')]
     init_monitor
   = \<lparr>test_results =
        [(''t1'', new_TestResult ''T1'' ''t1'' PASS), (''t2'', new_TestResult ''T3'' ''t2'' FAIL),
         (''t3'', new_TestResult ''T5'' ''t3'' RUNNING)],
      log_buffer =
        [\<lparr>log_timestamp = ''T0'', raw = ''STATUS:TEST_PASS:t1''\<rparr>,
         \<lparr>log_timestamp = ''T2'', raw = ''STATUS:TEST_FAIL:t2''\<rparr>,
         \<lparr>log_timestamp = ''T4'', raw = ''STATUS:TEST_RUNNING:t3''\<rparr>,
         \<lparr>log_timestamp = ''T6'', raw = ''SUMMARY:10:7:3''\<rparr>],
      stdout =
        [''[TEST_STATUS] t1: TEST_PASS'', ''[RTT] STATUS:TEST_PASS:t1'',
         ''[TEST_STATUS] t2: TEST_FAIL'', ''[RTT] STATUS:TEST_FAIL:t2'',
         ''[TEST_STATUS] t3: TEST_RUNNING'', ''[RTT] STATUS:TEST_RUNNING:t3'',
         ''[TEST_SUMMARY] Total: 10, Passed: 7, Failed: 3'']\<rparr>"
  by code_simp

text \<open>
  Claim C10. In the document that \<^verbatim>\<open>save_results\<close> writes, \<open>total_tests\<close> is the number
  of entries of the registry (the number of its keys, which are distinct),
  \<open>passed_tests\<close> and \<open>failed_tests\<close> count the entries whose status is \<^verbatim>\<open>PASS\<close> and
  \<^verbatim>\<open>FAIL\<close>; their sum is at most \<open>total_tests\<close>, and less when some entry is \<^verbatim>\<open>INIT\<close>,
  \<^verbatim>\<open>RUNNING\<close> or \<^verbatim>\<open>COMPLETE\<close>. The three counts depend on the registry only, and the
  stage of the parser that returns the summary of a \<^verbatim>\<open>SUMMARY\<close> line does not change them.
\<close>

theorem report_summary_counts_registry:
  "total_tests (summary (fst (save_results filename st))) = int (length (test_results st))
   \<and> (distinct (dict_keys (test_results st)) \<longrightarrow>
        total_tests (summary (fst (save_results filename st)))
          = int (card (set (dict_keys (test_results st)))))
   \<and> passed_tests (summary (fst (save_results filename st)))
       = int (length (filter (\<lambda>r. status r = PASS) (dict_values (test_results st))))
   \<and> failed_tests (summary (fst (save_results filename st)))
       = int (length (filter (\<lambda>r. status r = FAIL) (dict_values (test_results st))))
   \<and> passed_tests (summary (fst (save_results filename st)))
       + failed_tests (summary (fst (save_results filename st)))
       \<le> total_tests (summary (fst (save_results filename st)))
   \<and> ((\<exists>r \<in> set (dict_values (test_results st)).
          status r = INIT \<or> status r = RUNNING \<or> status r = COMPLETE) \<longrightarrow>
        passed_tests (summary (fst (save_results filename st)))
          + failed_tests (summary (fst (save_results filename st)))
          < total_tests (summary (fst (save_results filename st))))
   \<and> (test_results st' = test_results st \<longrightarrow>
        summary (fst (save_results filename' st')) = summary (fst (save_results filename st)))
   \<and> summary (fst (save_results filename (snd (parse_summary_or_log l st))))
       = summary (fst (save_results filename st))"
proof -
  let ?vs = "dict_values (test_results st)"
  let ?other = "filter (\<lambda>r. status r \<noteq> PASS \<and> status r \<noteq> FAIL) ?vs"
  let ?p = "int (length (filter (\<lambda>r. status r = PASS) ?vs))"
  let ?f = "int (length (filter (\<lambda>r. status r = FAIL) ?vs))"
  let ?t = "int (length (test_results st))"
  have len: "length ?vs = length (test_results st)"
    by (simp add: dict_values_def)
  have part: "?p + ?f + int (length ?other) = ?t"
    using status_partition [of ?vs] len by linarith
  have le: "?p + ?f \<le> ?t"
    using part by linarith
  have lt: "?p + ?f < ?t"
    if "\<exists>r \<in> set ?vs. status r = INIT \<or> status r = RUNNING \<or> status r = COMPLETE"
  proof -
    from that obtain r where "r \<in> set ?vs" "status r \<noteq> PASS \<and> status r \<noteq> FAIL"
      by (auto simp: neither_pass_nor_fail)
    then have "r \<in> set ?other" by simp
    then have "0 < length ?other" by (simp only: length_pos_if_in_set)
    with part show ?thesis by linarith
  qed
  have card: "?t = int (card (set (dict_keys (test_results st))))"
    if "distinct (dict_keys (test_results st))"
    using distinct_card [OF that] by (simp add: dict_keys_def)
  have rep: "summary (fst (save_results filename st))
               = \<lparr>total_tests = ?t, passed_tests = ?p, failed_tests = ?f\<rparr>"
    by (simp add: save_results_def summary_output_data)
  have same: "summary (fst (save_results filename' st')) = summary (fst (save_results filename st))"
    if "test_results st' = test_results st"
    using that by (simp add: save_results_def summary_output_data)
  have stage: "summary (fst (save_results filename (snd (parse_summary_or_log l st))))
                 = summary (fst (save_results filename st))"
    by (simp add: save_results_def summary_output_data)
  show ?thesis
    using le lt card same stage by (simp add: rep)
qed

theorem report_summary_counts_registry_witness:
  "distinct (dict_keys (test_results (parse_lines
     [(''T0'', ''T1'', ''STATUS:TEST_PASS:t1''), (''T2'', ''T3'', ''STATUS:TEST_FAIL:t2''),
      (''T4'', ''T5'', ''STATUS:TEST_RUNNING:t3''), (''T6'', ''T7'', ''SUMMARY:10:7:3'')]
     init_monitor)))
   \<and> (\<exists>r \<in> set (dict_values (test_results (parse_lines
     [(''T0'', ''T1'', ''STATUS:TEST_PASS:t1''), (''T2'', ''T3'', ''STATUS:TEST_FAIL:t2''),
      (''T4'', ''T5'', ''STATUS:TEST_RUNNING:t3''), (''T6'', ''T7'', ''SUMMARY:10:7:3'')]
     init_monitor))). status r = INIT \<or> status r = RUNNING \<or> status r = COMPLETE)
   \<and> summary (fst (save_results ''out.json'' (parse_lines
     [(''T0'', ''T1'', ''STATUS:TEST_PASS:t1''), (''T2'', ''T3'', ''STATUS:TEST_FAIL:t2''),
      (''T4'', ''T5'', ''STATUS:TEST_RUNNING:t3''), (''T6'', ''T7'', ''SUMMARY:10:7:3'')]
     init_monitor)))
     = \<lparr>total_tests = 3, passed_tests = 1, failed_tests = 1\<rparr>
   \<and> summary (fst (save_results ''other.json''
        \<lparr>test_results =
          [(''t1'', new_TestResult ''T1'' ''t1'' PASS), (''t2'', new_TestResult ''T3'' ''t2'' FAIL),
           (''t3'', new_TestResult ''T5'' ''t3'' RUNNING)],
         log_buffer = [], stdout = []\<rparr>))
     = \<lparr>total_tests = 3, passed_tests = 1, failed_tests = 1\<rparr>"
  using report_summary_counts_registry
          [of "''out.json''"
              "parse_lines
                 [(''T0'', ''T1'', ''STATUS:TEST_PASS:t1''), (''T2'', ''T3'', ''STATUS:TEST_FAIL:t2''),
                  (''T4'', ''T5'', ''STATUS:TEST_RUNNING:t3''), (''T6'', ''T7'', ''SUMMARY:10:7:3'')]
                 init_monitor"
              "\<lparr>test_results =
                  [(''t1'', new_TestResult ''T1'' ''t1'' PASS),
                   (''t2'', new_TestResult ''T3'' ''t2'' FAIL),
                   (''t3'', new_TestResult ''T5'' ''t3'' RUNNING)],
                log_buffer = [], stdout = []\<rparr>"
              "''other.json''"]
  unfolding three_tests_run
  by (simp add: dict_keys_def dict_values_def new_TestResult_def)

subsection \<open>Result and status messages\<close>

lemma search_status_bogus:
  "search status_pattern (strip ''STATUS:BOGUS:t1'') = Some [''BOGUS'', ''t1'']"
  by code_simp

lemma search_result_bogus: "search result_pattern (strip ''STATUS:BOGUS:t1'') = None"
  by code_simp

lemma strip_bogus: "strip ''STATUS:BOGUS:t1'' = ''STATUS:BOGUS:t1''"
  by code_simp

lemma TestStatus_of_value_bogus:
  "TestStatus_of_value ''BOGUS'' = Inl (ValueError (CHR 0x27 # ''BOGUS'' @ CHR 0x27 # '' is not a valid TestStatus''))"
  by (simp add: TestStatus_of_value_def)

text \<open>
  Claim C7. When the status pattern finds \<^verbatim>\<open>STATUS:<token>:<test-name>\<close> in the stripped
  line and \<^verbatim>\<open>TestStatus(token)\<close> raises, the call prints the diagnostic
  \<^verbatim>\<open>[RTT_MONITOR] Unknown status: <token>\<close> first, the status stage leaves the registry
  as it was (the registry after the call is the one the result message of the line, if
  any, makes of the old registry, and the old registry when the result pattern does not
  match), and the stripped line is appended to the raw log.
\<close>

theorem unknown_status_token_no_mutation:
  assumes "search status_pattern (strip line) = Some [tok, n]"
    and "TestStatus_of_value tok = Inl e"
  shows "(\<exists>rest. stdout (snd (parse_rtt_line now now' line st))
                   = stdout st @ [''[RTT_MONITOR] Unknown status: '' @ tok] @ rest)
         \<and> test_results (parse_status now' (strip line) st) = test_results st
         \<and> test_results (snd (parse_rtt_line now now' line st))
             = test_results (snd (parse_result (strip line) st))
         \<and> (search result_pattern (strip line) = None \<longrightarrow>
              test_results (snd (parse_rtt_line now now' line st)) = test_results st)
         \<and> log_buffer (snd (parse_rtt_line now now' line st))
             = log_buffer st @ [\<lparr>log_timestamp = now, raw = strip line\<rparr>]"
proof -
  let ?l = "strip line"
  let ?st0 = "st\<lparr>log_buffer := log_buffer st @ [\<lparr>log_timestamp = now, raw = ?l\<rparr>]\<rparr>"
  from assms(1) have ne: "?l \<noteq> []"
    by (auto simp: search_empty)
  have st1: "parse_status now' ?l ?st0
               = print_out (''[RTT_MONITOR] Unknown status: '' @ tok) ?st0"
    using assms by (simp add: parse_status_def)
  obtain rest where "stdout (snd (parse_rtt_line now now' line st))
                       = stdout (parse_status now' ?l ?st0) @ rest"
    using parse_rtt_line_stdout [OF ne] by blast
  then have out: "stdout (snd (parse_rtt_line now now' line st))
                    = stdout st @ [''[RTT_MONITOR] Unknown status: '' @ tok] @ rest"
    by (simp add: st1)
  have reg1: "test_results (parse_status now' ?l st) = test_results st"
    using assms by (simp add: parse_status_test_results)
  have reg2: "test_results (snd (parse_rtt_line now now' line st))
                = test_results (snd (parse_result ?l st))"
    using ne parse_result_test_results_cong [OF reg1]
    by (simp add: parse_rtt_line_test_results)
  have reg3: "test_results (snd (parse_result ?l st)) = test_results st"
    if "search result_pattern ?l = None"
    using that by (simp add: parse_result_test_results)
  have log: "log_buffer (snd (parse_rtt_line now now' line st))
               = log_buffer st @ [\<lparr>log_timestamp = now, raw = ?l\<rparr>]"
    using ne by (simp add: parse_rtt_line_log_buffer)
  from out have "\<exists>rest. stdout (snd (parse_rtt_line now now' line st))
                          = stdout st @ [''[RTT_MONITOR] Unknown status: '' @ tok] @ rest" ..
  moreover have "search result_pattern ?l = None \<longrightarrow>
                   test_results (snd (parse_rtt_line now now' line st)) = test_results st"
    using reg2 reg3 by simp
  ultimately show ?thesis
    using reg1 reg2 log by (intro conjI)
qed

theorem unknown_status_token_no_mutation_witness:
  "search status_pattern (strip ''STATUS:BOGUS:t1'') = Some [''BOGUS'', ''t1'']
   \<and> TestStatus_of_value ''BOGUS'' = Inl (ValueError (CHR 0x27 # ''BOGUS'' @ CHR 0x27 # '' is not a valid TestStatus''))
   \<and> search result_pattern (strip ''STATUS:BOGUS:t1'') = None
   \<and> (\<exists>rest. stdout (snd (parse_rtt_line ''T0'' ''T1'' ''STATUS:BOGUS:t1'' init_monitor))
                 = ''[RTT_MONITOR] Unknown status: BOGUS'' # rest)
   \<and> test_results (snd (parse_rtt_line ''T0'' ''T1'' ''STATUS:BOGUS:t1'' init_monitor)) = []
   \<and> log_buffer (snd (parse_rtt_line ''T0'' ''T1'' ''STATUS:BOGUS:t1'' init_monitor))
       = [\<lparr>log_timestamp = ''T0'', raw = ''STATUS:BOGUS:t1''\<rparr>]"
  using unknown_status_token_no_mutation
          [OF search_status_bogus TestStatus_of_value_bogus, of "''T0''" "''T1''" init_monitor]
    search_status_bogus TestStatus_of_value_bogus search_result_bogus
  by (simp add: init_monitor_def strip_bogus parse_result_test_results)

lemma strip_result_t9: "strip ''RESULT:t9:FAIL:7'' = ''RESULT:t9:FAIL:7''"
  by code_simp

lemma search_result_t9:
  "search result_pattern (strip ''RESULT:t9:FAIL:7'') = Some [''t9'', ''FAIL'', ''7'']"
  by code_simp

lemma search_status_t9: "search status_pattern (strip ''RESULT:t9:FAIL:7'') = None"
  by code_simp

text \<open>
  Claim C4, as stated, fails: the line \<^verbatim>\<open>RESULT:STATUS:TEST_PASS:foo:PASS:5\<close> matches the
  result pattern with the test name \<^verbatim>\<open>STATUS:TEST_PASS:foo\<close>, which the empty registry
  does not hold, and the status pattern finds \<^verbatim>\<open>STATUS:TEST_PASS:foo:PASS:5\<close> in the same
  line: the call creates the record \<^verbatim>\<open>foo:PASS:5\<close>.
\<close>

theorem result_for_unknown_test_counterexample:
  "search result_pattern (strip ''RESULT:STATUS:TEST_PASS:foo:PASS:5'')
     = Some [''STATUS:TEST_PASS:foo'', ''PASS'', ''5'']
   \<and> \<not> dict_contains (test_results init_monitor) ''STATUS:TEST_PASS:foo''
   \<and> test_results
        (snd (parse_rtt_line ''T0'' ''T1'' ''RESULT:STATUS:TEST_PASS:foo:PASS:5'' init_monitor))
       = [(''foo:PASS:5'', new_TestResult ''T1'' ''foo:PASS:5'' PASS)]
   \<and> test_results
        (snd (parse_rtt_line ''T0'' ''T1'' ''RESULT:STATUS:TEST_PASS:foo:PASS:5'' init_monitor))
       \<noteq> test_results init_monitor"
  by code_simp

text \<open>
  Claim C4, amended. When the result pattern finds a test name \<open>n\<close> that the registry does
  not hold, the stripped line is appended to the raw log, and the result message changes
  nothing: unless the status message of the same line names \<open>n\<close> itself, the registry
  after the call is the one the status stage alone produces, and it does not hold \<open>n\<close>.
  When the status pattern does not match the line, or its token is no \<^verbatim>\<open>TestStatus\<close>, the
  registry after the call is the registry before it.
\<close>

theorem result_for_unknown_test_dropped:
  assumes "search result_pattern (strip line) = Some [n, res, d]"
    and "\<not> dict_contains (test_results st) n"
  shows "log_buffer (snd (parse_rtt_line now now' line st))
           = log_buffer st @ [\<lparr>log_timestamp = now, raw = strip line\<rparr>]
         \<and> ((\<forall>tok. search status_pattern (strip line) \<noteq> Some [tok, n]) \<longrightarrow>
               test_results (snd (parse_rtt_line now now' line st))
                 = test_results (parse_status now' (strip line) st)
               \<and> \<not> dict_contains (test_results (snd (parse_rtt_line now now' line st))) n)
         \<and> (search status_pattern (strip line) = None
              \<or> (\<exists>tok m e. search status_pattern (strip line) = Some [tok, m]
                     \<and> TestStatus_of_value tok = Inl e) \<longrightarrow>
               test_results (snd (parse_rtt_line now now' line st)) = test_results st)"
proof -
  let ?l = "strip line"
  let ?st' = "snd (parse_rtt_line now now' line st)"
  from assms(1) have ne: "?l \<noteq> []"
    by (auto simp: search_empty)
  have log: "log_buffer ?st' = log_buffer st @ [\<lparr>log_timestamp = now, raw = ?l\<rparr>]"
    using ne by (simp add: parse_rtt_line_log_buffer)
  have absent: "\<not> dict_contains (test_results (parse_status now' ?l st)) n"
    if "\<forall>tok. search status_pattern ?l \<noteq> Some [tok, n]"
  proof (cases "search status_pattern ?l")
    case None
    with assms(2) show ?thesis by (simp add: parse_status_test_results)
  next
    case (Some gs)
    from search_status_groups [OF Some] Some that have "gs ! 1 \<noteq> n"
      by metis
    with assms(2) Some show ?thesis
      by (auto simp: dict_contains_def parse_status_keys split: sum.splits)
  qed
  have dropped: "test_results ?st' = test_results (parse_status now' ?l st)
                 \<and> \<not> dict_contains (test_results ?st') n"
    if "\<forall>tok. search status_pattern ?l \<noteq> Some [tok, n]"
    using absent [OF that] ne assms(1)
    by (simp add: parse_rtt_line_test_results parse_result_test_results)
  have unchanged: "test_results ?st' = test_results st"
    if "search status_pattern ?l = None
        \<or> (\<exists>tok m e. search status_pattern ?l = Some [tok, m] \<and> TestStatus_of_value tok = Inl e)"
  proof -
    from that have same: "test_results (parse_status now' ?l st) = test_results st"
      by (auto simp: parse_status_test_results)
    with assms ne show ?thesis
      by (simp add: parse_rtt_line_test_results parse_result_test_results)
  qed
  show ?thesis
    using log dropped unchanged by (intro conjI impI) blast+
qed

theorem result_for_unknown_test_dropped_witness:
  "search result_pattern (strip ''RESULT:t9:FAIL:7'') = Some [''t9'', ''FAIL'', ''7'']
   \<and> \<not> dict_contains
          (test_results \<lparr>test_results = [(''t1'', new_TestResult ''T1'' ''t1'' RUNNING)],
                         log_buffer = [], stdout = []\<rparr>) ''t9''
   \<and> search status_pattern (strip ''RESULT:t9:FAIL:7'') = None
   \<and> test_results
        (snd (parse_rtt_line ''T2'' ''T3'' ''RESULT:t9:FAIL:7''
                \<lparr>test_results = [(''t1'', new_TestResult ''T1'' ''t1'' RUNNING)],
                 log_buffer = [], stdout = []\<rparr>))
       = [(''t1'', new_TestResult ''T1'' ''t1'' RUNNING)]
   \<and> log_buffer
        (snd (parse_rtt_line ''T2'' ''T3'' ''RESULT:t9:FAIL:7''
                \<lparr>test_results = [(''t1'', new_TestResult ''T1'' ''t1'' RUNNING)],
                 log_buffer = [], stdout = []\<rparr>))
       = [\<lparr>log_timestamp = ''T2'', raw = ''RESULT:t9:FAIL:7''\<rparr>]"
proof -
  have h2: "\<not> dict_contains
               (test_results \<lparr>test_results = [(''t1'', new_TestResult ''T1'' ''t1'' RUNNING)],
                              log_buffer = [], stdout = []\<rparr>) ''t9''"
    by (simp add: dict_contains_def dict_keys_def)
  show ?thesis
    using result_for_unknown_test_dropped [OF search_result_t9 h2, of "''T2''" "''T3''"]
      search_result_t9 h2 search_status_t9
    by (simp add: strip_result_t9 parse_status_test_results)
qed

subsection \<open>Creation and lifetime of a record\<close>

lemma search_status_init_t1:
  "search status_pattern (strip ''STATUS:TEST_INIT:t1'') = Some [''TEST_INIT'', ''t1'']"
  by code_simp

lemma TestStatus_of_value_init: "TestStatus_of_value ''TEST_INIT'' = Inr INIT"
  by (simp add: TestStatus_of_value_def)

lemma dict_get_t1:
  "dict_get [(''t1'', new_TestResult ''T1'' ''t1'' INIT)] ''t1''
     = Some (new_TestResult ''T1'' ''t1'' INIT)"
  by (simp add: dict_get_def)

text \<open>
  Claim C3, as stated, fails: a result message never creates a record. On the empty
  registry the line \<^verbatim>\<open>RESULT:t1:PASS:5\<close> is the first to name \<^verbatim>\<open>t1\<close>, no status message
  came before, and the registry stays empty (line 114 updates known tests only).
\<close>

theorem result_event_creates_no_record_counterexample:
  "search result_pattern (strip ''RESULT:t1:PASS:5'') = Some [''t1'', ''PASS'', ''5'']
   \<and> search status_pattern (strip ''RESULT:t1:PASS:5'') = None
   \<and> \<not> dict_contains (test_results init_monitor) ''t1''
   \<and> test_results (snd (parse_rtt_line ''T0'' ''T1'' ''RESULT:t1:PASS:5'' init_monitor)) = []
   \<and> dict_get (test_results (snd (parse_rtt_line ''T0'' ''T1'' ''RESULT:t1:PASS:5'' init_monitor)))
         ''t1'' = None"
  by code_simp

text \<open>
  Claim C3, amended. A call of \<^verbatim>\<open>parse_rtt_line\<close> keeps the keys of the registry in their
  order and appends at most one key, and then the name of a status message of the line
  whose token is a \<^verbatim>\<open>TestStatus\<close>. Such a status message for a name the registry does not
  hold creates its record, with that name and the clock reading of the call. Over any
  succession of calls, a record that exists stays under its key with its name, its
  creation timestamp and its log messages (only status and duration change), the keys
  present stay in front in their order, and the keys stay distinct: one record for each
  name.
\<close>

theorem record_created_once_by_status_event:
  "(\<exists>new. dict_keys (test_results (snd (parse_rtt_line now now' line st)))
              = dict_keys (test_results st) @ new
          \<and> (new = []
              \<or> (\<exists>tok k s. new = [k] \<and> search status_pattern (strip line) = Some [tok, k]
                     \<and> TestStatus_of_value tok = Inr s)))
   \<and> (search status_pattern (strip line) = Some [tok, n] \<and> TestStatus_of_value tok = Inr s
        \<and> \<not> dict_contains (test_results st) n \<longrightarrow>
        (\<exists>r. dict_get (test_results (snd (parse_rtt_line now now' line st))) n = Some r
              \<and> name r = n \<and> timestamp r = now' \<and> log_messages r = []))
   \<and> (dict_get (test_results st) m = Some r0 \<longrightarrow>
        (\<exists>r. dict_get (test_results (parse_lines ls st)) m = Some r
              \<and> name r = name r0 \<and> timestamp r = timestamp r0
              \<and> log_messages r = log_messages r0))
   \<and> (\<exists>new. dict_keys (test_results (parse_lines ls st)) = dict_keys (test_results st) @ new)
   \<and> (distinct (dict_keys (test_results st)) \<longrightarrow>
        distinct (dict_keys (test_results (parse_lines ls st))))"
proof -
  let ?l = "strip line"
  let ?new = "case search status_pattern ?l of
                None \<Rightarrow> []
              | Some gs \<Rightarrow>
                  (case TestStatus_of_value (gs ! 0) of
                     Inl e \<Rightarrow> []
                   | Inr s \<Rightarrow> if dict_contains (test_results st) (gs ! 1) then [] else [gs ! 1])"
  have new: "?new = []
             \<or> (\<exists>tok k s. ?new = [k] \<and> search status_pattern ?l = Some [tok, k]
                    \<and> TestStatus_of_value tok = Inr s)"
  proof (cases "search status_pattern ?l")
    case None
    then show ?thesis by simp
  next
    case (Some gs)
    from search_status_groups [OF Some] have gs: "Some gs = Some [gs ! 0, gs ! 1]"
      by simp
    show ?thesis
    proof (cases "TestStatus_of_value (gs ! 0)")
      case (Inl e)
      with Some show ?thesis by simp
    next
      case (Inr s)
      show ?thesis
      proof (cases "dict_contains (test_results st) (gs ! 1)")
        case True
        with Some Inr show ?thesis by simp
      next
        case False
        have "?new = [gs ! 1]"
          using Some Inr False by simp
        moreover have "search status_pattern ?l = Some [gs ! 0, gs ! 1]"
          using Some gs by simp
        ultimately show ?thesis
          using Inr by blast
      qed
    qed
  qed
  have step: "\<exists>new. dict_keys (test_results (snd (parse_rtt_line now now' line st)))
                       = dict_keys (test_results st) @ new
                   \<and> (new = []
                       \<or> (\<exists>tok k s. new = [k] \<and> search status_pattern ?l = Some [tok, k]
                              \<and> TestStatus_of_value tok = Inr s))"
    using new parse_rtt_line_keys [of now now' line st] by blast
  have create: "\<exists>r. dict_get (test_results (snd (parse_rtt_line now now' line st))) n = Some r
                     \<and> name r = n \<and> timestamp r = now' \<and> log_messages r = []"
    if "search status_pattern ?l = Some [tok, n] \<and> TestStatus_of_value tok = Inr s
        \<and> \<not> dict_contains (test_results st) n"
    using that parse_rtt_line_creates [of line tok n s st now now'] by blast
  have persist: "\<exists>r. dict_get (test_results (parse_lines ls st)) m = Some r
                      \<and> name r = name r0 \<and> timestamp r = timestamp r0
                      \<and> log_messages r = log_messages r0"
    if "dict_get (test_results st) m = Some r0"
    using that by (rule parse_lines_persist)
  show ?thesis
    using step create persist parse_lines_keys [of ls st] parse_lines_distinct [of st ls]
    by (intro conjI impI) blast+
qed

theorem record_created_once_by_status_event_witness:
  "search status_pattern (strip ''STATUS:TEST_INIT:t1'') = Some [''TEST_INIT'', ''t1'']
   \<and> TestStatus_of_value ''TEST_INIT'' = Inr INIT
   \<and> \<not> dict_contains (test_results init_monitor) ''t1''
   \<and> (\<exists>r. dict_get (test_results (snd (parse_rtt_line ''T0'' ''T1'' ''STATUS:TEST_INIT:t1''
                                          init_monitor))) ''t1'' = Some r
            \<and> name r = ''t1'' \<and> timestamp r = ''T1'' \<and> log_messages r = [])
   \<and> dict_get (test_results \<lparr>test_results = [(''t1'', new_TestResult ''T1'' ''t1'' INIT)],
                              log_buffer = [], stdout = []\<rparr>) ''t1''
       = Some (new_TestResult ''T1'' ''t1'' INIT)
   \<and> distinct (dict_keys (test_results
         \<lparr>test_results = [(''t1'', new_TestResult ''T1'' ''t1'' INIT)],
          log_buffer = [], stdout = []\<rparr>))
   \<and> (\<exists>r. dict_get
              (test_results
                 (parse_lines
                    [(''T2'', ''T3'', ''RESULT:t1:PASS:5''),
                     (''T4'', ''T5'', ''STATUS:TEST_COMPLETE:t1''),
                     (''T6'', ''T7'', ''STATUS:TEST_INIT:t2'')]
                    \<lparr>test_results = [(''t1'', new_TestResult ''T1'' ''t1'' INIT)],
                     log_buffer = [], stdout = []\<rparr>)) ''t1'' = Some r
            \<and> name r = ''t1'' \<and> timestamp r = ''T1'' \<and> log_messages r = [])
   \<and> distinct (dict_keys (test_results
         (parse_lines
            [(''T2'', ''T3'', ''RESULT:t1:PASS:5''),
             (''T4'', ''T5'', ''STATUS:TEST_COMPLETE:t1''),
             (''T6'', ''T7'', ''STATUS:TEST_INIT:t2'')]
            \<lparr>test_results = [(''t1'', new_TestResult ''T1'' ''t1'' INIT)],
             log_buffer = [], stdout = []\<rparr>)))"
proof -
  have absent: "\<not> dict_contains (test_results init_monitor) ''t1''"
    by (simp add: init_monitor_def dict_contains_def dict_keys_def)
  have dist: "distinct (dict_keys (test_results
                \<lparr>test_results = [(''t1'', new_TestResult ''T1'' ''t1'' INIT)],
                 log_buffer = [], stdout = []\<rparr>))"
    by (simp add: dict_keys_def)
  note a = record_created_once_by_status_event
             [of "''T0''" "''T1''" "''STATUS:TEST_INIT:t1''" init_monitor "''TEST_INIT''" "''t1''" INIT]
  note b = record_created_once_by_status_event
             [of _ _ _ "\<lparr>test_results = [(''t1'', new_TestResult ''T1'' ''t1'' INIT)],
                         log_buffer = [], stdout = []\<rparr>" _ _ _
                 "''t1''" "new_TestResult ''T1'' ''t1'' INIT"
                 "[(''T2'', ''T3'', ''RESULT:t1:PASS:5''),
                   (''T4'', ''T5'', ''STATUS:TEST_COMPLETE:t1''),
                   (''T6'', ''T7'', ''STATUS:TEST_INIT:t2'')]"]
  from a search_status_init_t1 TestStatus_of_value_init absent
  have c1: "\<exists>r. dict_get (test_results (snd (parse_rtt_line ''T0'' ''T1'' ''STATUS:TEST_INIT:t1''
                                          init_monitor))) ''t1'' = Some r
            \<and> name r = ''t1'' \<and> timestamp r = ''T1'' \<and> log_messages r = []"
    by blast
  from b dict_get_t1 dist
  have c2: "(\<exists>r. dict_get
              (test_results
                 (parse_lines
                    [(''T2'', ''T3'', ''RESULT:t1:PASS:5''),
                     (''T4'', ''T5'', ''STATUS:TEST_COMPLETE:t1''),
                     (''T6'', ''T7'', ''STATUS:TEST_INIT:t2'')]
                    \<lparr>test_results = [(''t1'', new_TestResult ''T1'' ''t1'' INIT)],
                     log_buffer = [], stdout = []\<rparr>)) ''t1'' = Some r
            \<and> name r = ''t1'' \<and> timestamp r = ''T1'' \<and> log_messages r = [])
      \<and> distinct (dict_keys (test_results
         (parse_lines
            [(''T2'', ''T3'', ''RESULT:t1:PASS:5''),
             (''T4'', ''T5'', ''STATUS:TEST_COMPLETE:t1''),
             (''T6'', ''T7'', ''STATUS:TEST_INIT:t2'')]
            \<lparr>test_results = [(''t1'', new_TestResult ''T1'' ''t1'' INIT)],
             log_buffer = [], stdout = []\<rparr>)))"
    by (simp add: new_TestResult_def del: parse_lines.simps)
  show ?thesis
    using search_status_init_t1 TestStatus_of_value_init absent c1 dict_get_t1 dist c2
    by (simp del: parse_lines.simps)
qed

subsection \<open>Matches on long lines\<close>

text \<open>The greedy repetition takes the longest extent after which the rest of the pattern
  matches.\<close>

lemma first_some_rev_upt:
  assumes "1 \<le> k" and "k \<le> m" and "f k = Some y"
    and "\<And>j. k < j \<Longrightarrow> j \<le> m \<Longrightarrow> f j = None"
  shows "first_some f (rev [1..<Suc m]) = Some y"
  using assms
proof (induction m)
  case 0
  then show ?case by simp
next
  case (Suc m)
  show ?case
  proof (cases "k = Suc m")
    case True
    with Suc.prems show ?thesis by simp
  next
    case False
    with Suc.prems have "k \<le> m" "f (Suc m) = None"
      by auto
    with Suc show ?thesis by simp
  qed
qed

lemma match_here_GroupPlus:
  assumes "1 \<le> k" and "k \<le> length (takeWhile (in_class c) s)"
    and "match_here rs (drop k s) = Some g"
    and "\<And>j. k < j \<Longrightarrow> j \<le> length (takeWhile (in_class c) s) \<Longrightarrow>
              match_here rs (drop j s) = None"
  shows "match_here (GroupPlus c # rs) s = Some (take k s # g)"
proof -
  have "first_some (\<lambda>k. map_option ((#) (take k s)) (match_here rs (drop k s)))
          (rev [1..<Suc (length (takeWhile (in_class c) s))]) = Some (take k s # g)"
    by (rule first_some_rev_upt [where k = k]) (use assms in simp_all)
  then show ?thesis by simp
qed

lemma match_here_last_group:
  assumes "s \<noteq> []" and "\<forall>x \<in> set s. in_class c x"
  shows "match_here [GroupPlus c] s = Some [s]"
proof -
  from assms(2) have "takeWhile (in_class c) s = s"
    by (simp add: takeWhile_eq_all_conv)
  then have len: "length (takeWhile (in_class c) s) = length s"
    by (rule arg_cong)
  from assms(1) have pos: "1 \<le> length s"
    by (cases s) simp_all
  have "match_here (GroupPlus c # []) s = Some (take (length s) s # [])"
    by (rule match_here_GroupPlus) (use pos in \<open>simp_all add: len\<close>)
  then show ?thesis by simp
qed

lemma search_at_start: "match_here p s = Some gs \<Longrightarrow> search p s = Some gs"
  by (simp add: search_def upt_rec)

lemma strip_unchanged:
  assumes "s \<noteq> []" and "\<not> is_space (hd s)" and "\<not> is_space (last s)"
  shows "strip s = s"
proof -
  from assms have "dropWhile is_space s = s"
    by (simp add: dropWhile_eq_self_iff)
  moreover from assms have "dropWhile is_space (rev s) = rev s"
    by (simp add: dropWhile_eq_self_iff hd_rev)
  ultimately show ?thesis by (simp add: strip_def)
qed

lemma match_here_Lit_replicate:
  "c \<noteq> d \<Longrightarrow> match_here (Lit [d] # rs) (replicate n c) = None"
  by (cases n) simp_all

lemma search_result_long:
  assumes "0 < n"
  shows "search result_pattern (''RESULT:t1:PASS:'' @ replicate n CHR ''9'')
           = Some [''t1'', ''PASS'', replicate n CHR ''9'']"
proof -
  let ?D = "replicate n CHR ''9''"
  let ?rs = "[Lit '':'', GroupAlt [''PASS'', ''FAIL''], Lit '':'', GroupPlus Digit]"
  let ?s = "''t1:PASS:'' @ ?D"
  have last: "match_here [GroupPlus Digit] ?D = Some [?D]"
    by (rule match_here_last_group) (use assms in \<open>auto simp: is_digit_def\<close>)
  have tw: "takeWhile (in_class AnyChar) ?s = ?s"
    by (simp add: takeWhile_eq_all_conv)
  have at2: "match_here ?rs (drop 2 ?s) = Some [''PASS'', ?D]"
    using last by simp
  have none: "match_here ?rs (drop j ?s) = None" if "2 < j" for j
  proof -
    from that have "j = 3 \<or> j = 4 \<or> j = 5 \<or> j = 6 \<or> j = 7 \<or> 8 \<le> j"
      by arith
    then show ?thesis
    proof (elim disjE)
      assume "8 \<le> j"
      then obtain i where "j = 8 + i"
        using le_Suc_ex by blast
      then have "drop j ?s = replicate (n - i) CHR ''9''"
        by (simp add: numeral_eq_Suc)
      then show ?thesis
        using match_here_Lit_replicate [of "CHR ''9''" "CHR '':''"] by simp
    qed (simp_all add: match_here_Lit_replicate)
  qed
  have "match_here (GroupPlus AnyChar # ?rs) ?s = Some (take 2 ?s # [''PASS'', ?D])"
    by (rule match_here_GroupPlus) (use at2 none tw in simp_all)
  then have "match_here result_pattern (''RESULT:t1:PASS:'' @ ?D) = Some [''t1'', ''PASS'', ?D]"
    by (simp add: result_pattern_def)
  then show ?thesis by (rule search_at_start)
qed

lemma strip_result_long:
  "0 < n \<Longrightarrow> strip (''RESULT:t1:PASS:'' @ replicate n CHR ''9'')
                 = ''RESULT:t1:PASS:'' @ replicate n CHR ''9''"
  by (rule strip_unchanged) (simp_all add: is_space_def)

lemma search_summary_long:
  assumes "0 < n"
  shows "search summary_pattern (''SUMMARY:0:0:'' @ replicate n CHR ''0'')
           = Some [''0'', ''0'', replicate n CHR ''0'']"
proof -
  let ?D = "replicate n CHR ''0''"
  have last: "match_here [GroupPlus Digit] ?D = Some [?D]"
    by (rule match_here_last_group) (use assms in \<open>auto simp: is_digit_def\<close>)
  have "match_here summary_pattern (''SUMMARY:0:0:'' @ ?D) = Some [''0'', ''0'', ?D]"
    using last by (simp add: summary_pattern_def is_digit_def)
  then show ?thesis by (rule search_at_start)
qed

lemma strip_summary_long:
  "0 < n \<Longrightarrow> strip (''SUMMARY:0:0:'' @ replicate n CHR ''0'')
                 = ''SUMMARY:0:0:'' @ replicate n CHR ''0''"
  by (rule strip_unchanged) (simp_all add: is_space_def)

subsection \<open>The conversion of digit groups\<close>

lemma py_int_ok: "length s \<le> int_max_str_digits \<Longrightarrow> py_int s = Inr (int_of_digits s)"
  by (simp add: py_int_def)

lemma py_int_too_long: "int_max_str_digits < length s \<Longrightarrow> \<exists>m. py_int s = Inl (ValueError m)"
  by (simp add: py_int_def)

lemma py_int_error: "py_int s = Inl e \<Longrightarrow> \<exists>m. e = ValueError m"
  by (auto simp: py_int_def split: if_splits)

lemma parse_result_fst:
  "fst (parse_result l st) =
     (case search result_pattern l of
        None \<Rightarrow> None
      | Some gs \<Rightarrow>
          if dict_contains (test_results st) (gs ! 0)
          then (case py_int (gs ! 2) of Inl e \<Rightarrow> Some e | Inr d \<Rightarrow> None)
          else None)"
  by (simp add: parse_result_def Let_def split: option.splits sum.splits)

lemma parse_result_error: "fst (parse_result l st) = Some e \<Longrightarrow> \<exists>m. e = ValueError m"
  by (auto simp: parse_result_fst dest: py_int_error split: option.splits if_splits sum.splits)

lemma int_of_digits_snoc:
  "int_of_digits (s @ [c]) = 10 * int_of_digits s + (int (of_char c) - 48)"
  by (simp add: int_of_digits_def)

lemma int_of_digits_decimal:
  "int_of_digits s = (\<Sum>i<length s. (int (of_char (s ! i)) - 48) * 10 ^ (length s - Suc i))"
proof (induction s rule: rev_induct)
  case Nil
  then show ?case by (simp add: int_of_digits_def)
next
  case (snoc c s)
  have "(\<Sum>i<length s. (int (of_char ((s @ [c]) ! i)) - 48) * 10 ^ (length (s @ [c]) - Suc i))
          = (\<Sum>i<length s. 10 * ((int (of_char (s ! i)) - 48) * 10 ^ (length s - Suc i)))"
  proof (rule sum.cong)
    fix i assume "i \<in> {..<length s}"
    then have i: "i < length s" by simp
    then have "length (s @ [c]) - Suc i = Suc (length s - Suc i)"
      by simp
    with i show "(int (of_char ((s @ [c]) ! i)) - 48) * 10 ^ (length (s @ [c]) - Suc i)
                   = 10 * ((int (of_char (s ! i)) - 48) * 10 ^ (length s - Suc i))"
      by (simp add: nth_append)
  qed simp
  also have "\<dots> = 10 * int_of_digits s"
    by (simp add: snoc.IH sum_distrib_left)
  finally show ?case
    by (simp add: int_of_digits_snoc)
qed

lemma parse_rtt_line_result_too_long:
  assumes "search result_pattern (strip line) = Some [n, res, d]"
    and "dict_get (test_results st) n = Some r0"
    and "int_max_str_digits < length d"
  shows "(\<exists>r. dict_get (test_results (snd (parse_rtt_line now now' line st))) n = Some r
              \<and> status r = (if res = ''PASS'' then PASS else FAIL)
              \<and> duration_ms r = duration_ms r0)
         \<and> (\<exists>m. fst (parse_rtt_line now now' line st) = Inl (ValueError m))"
proof -
  let ?l = "strip line"
  let ?st0 = "st\<lparr>log_buffer := log_buffer st @ [\<lparr>log_timestamp = now, raw = ?l\<rparr>]\<rparr>"
  from assms(1) have ne: "?l \<noteq> []"
    by (auto simp: search_empty)
  from parse_status_persist [OF assms(2), of now' ?l]
  obtain r1 where r1: "dict_get (test_results (parse_status now' ?l st)) n = Some r1"
    "duration_ms r1 = duration_ms r0"
    by blast
  then have known: "dict_contains (test_results (parse_status now' ?l st)) n"
    by (auto simp: dict_contains_get)
  from py_int_too_long [OF assms(3)] obtain m where m: "py_int d = Inl (ValueError m)"
    by blast
  have "dict_get (test_results (snd (parse_rtt_line now now' line st))) n
          = Some (r1\<lparr>status := (if res = ''PASS'' then PASS else FAIL)\<rparr>)"
    using ne assms(1) known r1(1) m
    by (simp add: parse_rtt_line_test_results parse_result_test_results dict_get_modify)
  moreover have "fst (parse_rtt_line now now' line st) = Inl (ValueError m)"
    using ne assms(1) known m
    by (simp add: parse_rtt_line_nonempty parse_result_fst)
  ultimately show ?thesis
    using r1(2) by auto
qed

lemma parse_result_no_error:
  "\<forall>gs. search result_pattern l = Some gs \<longrightarrow> length (gs ! 2) \<le> int_max_str_digits \<Longrightarrow>
     fst (parse_result l st) = None"
  by (simp add: parse_result_fst py_int_ok split: option.splits)

lemma match_here_group_length:
  "match_here p s = Some gs \<Longrightarrow> \<forall>g \<in> set gs. length g \<le> length s"
proof (induction p arbitrary: s gs)
  case Nil
  then show ?case by simp
next
  case (Cons a p)
  show ?case
  proof (cases a)
    case (Lit l)
    with Cons.prems have "match_here p (drop (length l) s) = Some gs"
      by (auto split: if_splits)
    from Cons.IH [OF this] show ?thesis by auto
  next
    case (GroupPlus c)
    with Cons.prems obtain k g where g: "match_here p (drop k s) = Some g" "gs = take k s # g"
      by (auto dest!: first_some_SomeD)
    from Cons.IH [OF g(1)] g(2) show ?thesis by auto
  next
    case (GroupAlt alts)
    with Cons.prems obtain b g where g: "match_here p (drop (length b) s) = Some g" "gs = b # g"
      "take (length b) s = b"
      by (auto dest!: first_some_SomeD split: if_splits)
    from g(3) have "length b \<le> length s"
      by (metis length_take min.cobounded1 min.commute)
    with Cons.IH [OF g(1)] g(2) show ?thesis by auto
  qed
qed

lemma search_group_length:
  assumes "search p s = Some gs" and "i < length gs"
  shows "length (gs ! i) \<le> length s"
proof -
  from assms(1) obtain k where "match_here p (drop k s) = Some gs"
    by (auto simp: search_def dest!: first_some_SomeD)
  from match_here_group_length [OF this] assms(2) have "length (gs ! i) \<le> length (drop k s)"
    by simp
  then show ?thesis by simp
qed

lemma parse_result_short_line:
  assumes "length l \<le> int_max_str_digits"
  shows "fst (parse_result l st) = None"
proof (rule parse_result_no_error, intro allI impI)
  fix gs assume gs: "search result_pattern l = Some gs"
  from search_three_groups [OF gs] have "2 < length gs"
    by (metis length_Cons lessI numeral_2_eq_2 Suc_less_eq zero_less_Suc)
  from search_group_length [OF gs this] assms show "length (gs ! 2) \<le> int_max_str_digits"
    by simp
qed

subsection \<open>The duration of a result\<close>

lemma search_result_4301:
  "search result_pattern (strip (''RESULT:t1:PASS:'' @ replicate 4301 CHR ''9''))
     = Some [''t1'', ''PASS'', replicate 4301 CHR ''9'']"
  by (simp only: strip_result_long search_result_long zero_less_numeral)

lemma dict_get_running_t1:
  "dict_get (test_results \<lparr>test_results = [(''t1'', new_TestResult ''T1'' ''t1'' RUNNING)],
                          log_buffer = [], stdout = []\<rparr>) ''t1''
     = Some (new_TestResult ''T1'' ''t1'' RUNNING)"
  by (simp add: dict_get_def)








subsection \<open>The four patterns on one line\<close>

lemma parse_status_stdout:
  "stdout (parse_status now' l st) =
     stdout st @
       (case search status_pattern l of
          None \<Rightarrow> []
        | Some gs \<Rightarrow>
            [case TestStatus_of_value (gs ! 0) of
               Inr s \<Rightarrow> ''[TEST_STATUS] '' @ gs ! 1 @ '': '' @ status_value s
             | Inl e \<Rightarrow> ''[RTT_MONITOR] Unknown status: '' @ gs ! 0])"
  by (simp add: parse_status_def Let_def split: option.splits sum.splits)

lemma parse_result_stdout_eq:
  "\<forall>gs. search result_pattern l = Some gs \<longrightarrow> length (gs ! 2) \<le> int_max_str_digits \<Longrightarrow>
     stdout (snd (parse_result l st)) =
       stdout st @
         (case search result_pattern l of
            None \<Rightarrow> []
          | Some gs \<Rightarrow>
              [''[TEST_RESULT] '' @ gs ! 0 @ '': '' @ gs ! 1 @ '' ('' @ gs ! 2 @ ''ms)''])"
  by (simp add: parse_result_def Let_def py_int_ok split: option.splits)

lemma parse_summary_or_log_stdout_eq:
  "\<forall>gs. search summary_pattern l = Some gs \<longrightarrow>
          length (gs ! 0) \<le> int_max_str_digits \<and> length (gs ! 1) \<le> int_max_str_digits
          \<and> length (gs ! 2) \<le> int_max_str_digits \<Longrightarrow>
     stdout (snd (parse_summary_or_log l st)) =
       stdout st @
         [case search summary_pattern l of
            Some gs \<Rightarrow>
              ''[TEST_SUMMARY] Total: '' @ str_int (int_of_digits (gs ! 0)) @ '', Passed: ''
                @ str_int (int_of_digits (gs ! 1)) @ '', Failed: ''
                @ str_int (int_of_digits (gs ! 2))
          | None \<Rightarrow>
              (case search log_pattern l of
                 Some gs \<Rightarrow> ''['' @ gs ! 1 @ ''] '' @ gs ! 2
               | None \<Rightarrow> ''[RTT] '' @ l)]"
  by (simp add: parse_summary_or_log_def Let_def py_int_ok split: option.splits sum.splits)

lemma parse_summary_or_log_returns_None:
  "fst (parse_summary_or_log l st) = Inr None \<longleftrightarrow> search summary_pattern l = None"
  by (simp add: parse_summary_or_log_def Let_def split: option.splits sum.splits)

lemma strip_status_in_log:
  "strip ''[5] [INFO] STATUS:TEST_RUNNING:t1'' = ''[5] [INFO] STATUS:TEST_RUNNING:t1''"
  by code_simp

lemma search_status_in_log:
  "search status_pattern ''[5] [INFO] STATUS:TEST_RUNNING:t1'' = Some [''TEST_RUNNING'', ''t1'']"
  "search result_pattern ''[5] [INFO] STATUS:TEST_RUNNING:t1'' = None"
  "search summary_pattern ''[5] [INFO] STATUS:TEST_RUNNING:t1'' = None"
  "search log_pattern ''[5] [INFO] STATUS:TEST_RUNNING:t1''
     = Some [''5'', ''INFO'', ''STATUS:TEST_RUNNING:t1'']"
  by code_simp+

lemma TestStatus_of_value_running: "TestStatus_of_value ''TEST_RUNNING'' = Inr RUNNING"
  by (simp add: TestStatus_of_value_def)

lemma summary_in_log_line:
  "search log_pattern (strip ''[1] [INFO] SUMMARY:1:1:0'') = Some [''1'', ''INFO'', ''SUMMARY:1:1:0'']
   \<and> search summary_pattern (strip ''[1] [INFO] SUMMARY:1:1:0'') = Some [''1'', ''1'', ''0'']
   \<and> stdout (snd (parse_rtt_line ''T0'' ''T1'' ''[1] [INFO] SUMMARY:1:1:0'' init_monitor))
       = [''[TEST_SUMMARY] Total: 1, Passed: 1, Failed: 0'']
   \<and> stdout (snd (parse_rtt_line ''T0'' ''T1'' ''[1] [INFO] hello'' init_monitor))
       = [''[INFO] hello'']"
  by code_simp

lemma search_summary_in_status:
  "strip ''STATUS:TEST_PASS:SUMMARY:1:1:0'' = ''STATUS:TEST_PASS:SUMMARY:1:1:0''"
  "search status_pattern ''STATUS:TEST_PASS:SUMMARY:1:1:0'' = Some [''TEST_PASS'', ''SUMMARY:1:1:0'']"
  "search result_pattern ''STATUS:TEST_PASS:SUMMARY:1:1:0'' = None"
  "search summary_pattern ''STATUS:TEST_PASS:SUMMARY:1:1:0'' = Some [''1'', ''1'', ''0'']"
  by code_simp+

lemma TestStatus_of_value_pass: "TestStatus_of_value ''TEST_PASS'' = Inr PASS"
  by (simp add: TestStatus_of_value_def)

lemma str_int_digits: "str_int (int_of_digits ''1'') = ''1''" "str_int (int_of_digits ''0'') = ''0''"
  by code_simp+

text \<open>
  Claim C2, as stated, fails: the summary branch returns (line 125) before the pattern of
  regular log messages is tried. The line \<^verbatim>\<open>[1] [INFO] SUMMARY:1:1:0\<close> matches both
  patterns, and the call prints the summary only, where a log line without summary is
  printed as \<^verbatim>\<open>[INFO] hello\<close>. And a result message of more than 4300 digits for a
  known test ends the call at line 116 with \<^verbatim>\<open>ValueError\<close>, before the summary and log
  patterns are tried.
\<close>

theorem summary_match_skips_log_counterexample:
  "search log_pattern (strip ''[1] [INFO] SUMMARY:1:1:0'') = Some [''1'', ''INFO'', ''SUMMARY:1:1:0'']
   \<and> search summary_pattern (strip ''[1] [INFO] SUMMARY:1:1:0'') = Some [''1'', ''1'', ''0'']
   \<and> stdout (snd (parse_rtt_line ''T0'' ''T1'' ''[1] [INFO] SUMMARY:1:1:0'' init_monitor))
       = [''[TEST_SUMMARY] Total: 1, Passed: 1, Failed: 0'']
   \<and> stdout (snd (parse_rtt_line ''T0'' ''T1'' ''[1] [INFO] hello'' init_monitor))
       = [''[INFO] hello'']
   \<and> search result_pattern (strip (''RESULT:t1:PASS:'' @ replicate 4301 CHR ''9''))
       = Some [''t1'', ''PASS'', replicate 4301 CHR ''9'']
   \<and> (\<exists>m. fst (parse_rtt_line ''T2'' ''T3''
                  (''RESULT:t1:PASS:'' @ replicate 4301 CHR ''9'')
                  \<lparr>test_results = [(''t1'', new_TestResult ''T1'' ''t1'' RUNNING)],
                   log_buffer = [], stdout = []\<rparr>) = Inl (ValueError m))"
proof -
  have long: "int_max_str_digits < length (replicate 4301 CHR ''9'')"
    by (simp add: int_max_str_digits_def)
  from parse_rtt_line_result_too_long
         [OF search_result_4301 dict_get_running_t1 long, of "''T2''" "''T3''"]
  have "\<exists>m. fst (parse_rtt_line ''T2'' ''T3''
                  (''RESULT:t1:PASS:'' @ replicate 4301 CHR ''9'')
                  \<lparr>test_results = [(''t1'', new_TestResult ''T1'' ''t1'' RUNNING)],
                   log_buffer = [], stdout = []\<rparr>) = Inl (ValueError m)"
    by (rule conjunct2)
  with summary_in_log_line search_result_4301 show ?thesis
    by (intro conjI) (elim conjE, assumption)+
qed

text \<open>
  Claim C2, amended. Take a line that is not empty after stripping and whose result and
  summary messages, if any, have digit groups of at most 4300 digits. The status, result
  and summary patterns are each tried, whatever the others find: the output of the call
  is the output of the status message, then of the result message, then of the summary,
  each a function of the match of its own pattern; the registry is the one the status
  stage and then the result stage produce; and the call returns \<^verbatim>\<open>None\<close> exactly when
  the summary pattern does not match. The log pattern (and the raw passthrough) is tried
  only when the summary pattern does not match. So one line can have the effects of
  several patterns. What the call does on longer digit groups is left out.
\<close>

theorem grammars_applied_to_every_line:
  "strip line \<noteq> []
   \<and> (\<forall>gs. search result_pattern (strip line) = Some gs \<longrightarrow>
             length (gs ! 2) \<le> int_max_str_digits)
   \<and> (\<forall>gs. search summary_pattern (strip line) = Some gs \<longrightarrow>
             length (gs ! 0) \<le> int_max_str_digits \<and> length (gs ! 1) \<le> int_max_str_digits
             \<and> length (gs ! 2) \<le> int_max_str_digits) \<longrightarrow>
     stdout (snd (parse_rtt_line now now' line st)) =
       stdout st
       @ (case search status_pattern (strip line) of
            None \<Rightarrow> []
          | Some gs \<Rightarrow>
              [case TestStatus_of_value (gs ! 0) of
                 Inr s \<Rightarrow> ''[TEST_STATUS] '' @ gs ! 1 @ '': '' @ status_value s
               | Inl e \<Rightarrow> ''[RTT_MONITOR] Unknown status: '' @ gs ! 0])
       @ (case search result_pattern (strip line) of
            None \<Rightarrow> []
          | Some gs \<Rightarrow>
              [''[TEST_RESULT] '' @ gs ! 0 @ '': '' @ gs ! 1 @ '' ('' @ gs ! 2 @ ''ms)''])
       @ [case search summary_pattern (strip line) of
            Some gs \<Rightarrow>
              ''[TEST_SUMMARY] Total: '' @ str_int (int_of_digits (gs ! 0)) @ '', Passed: ''
                @ str_int (int_of_digits (gs ! 1)) @ '', Failed: ''
                @ str_int (int_of_digits (gs ! 2))
          | None \<Rightarrow>
              (case search log_pattern (strip line) of
                 Some gs \<Rightarrow> ''['' @ gs ! 1 @ ''] '' @ gs ! 2
               | None \<Rightarrow> ''[RTT] '' @ strip line)]
     \<and> test_results (snd (parse_rtt_line now now' line st))
         = test_results (snd (parse_result (strip line) (parse_status now' (strip line) st)))
     \<and> (fst (parse_rtt_line now now' line st) = Inr None
          \<longleftrightarrow> search summary_pattern (strip line) = None)"
  (is "?ne \<and> ?R \<and> ?S \<longrightarrow> ?concl")
proof
  assume hyp: "?ne \<and> ?R \<and> ?S"
  then have ne: "strip line \<noteq> []" and R: ?R and S: ?S
    by blast+
  let ?l = "strip line"
  let ?st0 = "st\<lparr>log_buffer := log_buffer st @ [\<lparr>log_timestamp = now, raw = ?l\<rparr>]\<rparr>"
  let ?st2 = "snd (parse_result ?l (parse_status now' ?l ?st0))"
  have noerr: "fst (parse_result ?l (parse_status now' ?l ?st0)) = None"
    using R by (rule parse_result_no_error)
  have unfold: "parse_rtt_line now now' line st = parse_summary_or_log ?l ?st2"
    using ne noerr by (simp add: parse_rtt_line_nonempty)
  have st0: "stdout ?st0 = stdout st"
    by simp
  have reg: "test_results (snd (parse_rtt_line now now' line st))
               = test_results (snd (parse_result ?l (parse_status now' ?l st)))"
    using ne by (simp add: parse_rtt_line_test_results)
  have ret: "fst (parse_rtt_line now now' line st) = Inr None
               \<longleftrightarrow> search summary_pattern ?l = None"
    unfolding unfold by (rule parse_summary_or_log_returns_None)
  show ?concl
    unfolding reg ret unfolding unfold
    by (simp only: parse_summary_or_log_stdout_eq [OF S] parse_result_stdout_eq [OF R]
          parse_status_stdout append_assoc st0 simp_thms)
qed

theorem grammars_applied_to_every_line_witness:
  "strip ''[5] [INFO] STATUS:TEST_RUNNING:t1'' \<noteq> []
   \<and> search result_pattern (strip ''[5] [INFO] STATUS:TEST_RUNNING:t1'') = None
   \<and> search summary_pattern (strip ''[5] [INFO] STATUS:TEST_RUNNING:t1'') = None
   \<and> stdout (snd (parse_rtt_line ''T0'' ''T1'' ''[5] [INFO] STATUS:TEST_RUNNING:t1'' init_monitor))
       = [''[TEST_STATUS] t1: TEST_RUNNING'', ''[INFO] STATUS:TEST_RUNNING:t1'']
   \<and> test_results
        (snd (parse_rtt_line ''T0'' ''T1'' ''[5] [INFO] STATUS:TEST_RUNNING:t1'' init_monitor))
       = [(''t1'', new_TestResult ''T1'' ''t1'' RUNNING)]
   \<and> fst (parse_rtt_line ''T0'' ''T1'' ''[5] [INFO] STATUS:TEST_RUNNING:t1'' init_monitor)
       = Inr None
   \<and> strip ''STATUS:TEST_PASS:SUMMARY:1:1:0'' \<noteq> []
   \<and> search result_pattern (strip ''STATUS:TEST_PASS:SUMMARY:1:1:0'') = None
   \<and> search summary_pattern (strip ''STATUS:TEST_PASS:SUMMARY:1:1:0'') = Some [''1'', ''1'', ''0'']
   \<and> length ''1'' \<le> int_max_str_digits \<and> length ''0'' \<le> int_max_str_digits
   \<and> stdout (snd (parse_rtt_line ''T0'' ''T1'' ''STATUS:TEST_PASS:SUMMARY:1:1:0'' init_monitor))
       = [''[TEST_STATUS] SUMMARY:1:1:0: TEST_PASS'',
          ''[TEST_SUMMARY] Total: 1, Passed: 1, Failed: 0'']
   \<and> test_results
        (snd (parse_rtt_line ''T0'' ''T1'' ''STATUS:TEST_PASS:SUMMARY:1:1:0'' init_monitor))
       = [(''SUMMARY:1:1:0'', new_TestResult ''T1'' ''SUMMARY:1:1:0'' PASS)]"
  using grammars_applied_to_every_line
          [of "''[5] [INFO] STATUS:TEST_RUNNING:t1''" "''T0''" "''T1''" init_monitor]
        grammars_applied_to_every_line
          [of "''STATUS:TEST_PASS:SUMMARY:1:1:0''" "''T0''" "''T1''" init_monitor]
  by (simp add: strip_status_in_log search_status_in_log TestStatus_of_value_running
        search_summary_in_status TestStatus_of_value_pass str_int_digits
        parse_result_test_results parse_status_test_results init_monitor_def
        dict_contains_def dict_keys_def int_max_str_digits_def)

subsection \<open>The summary\<close>

lemma parse_rtt_line_summary_raises:
  assumes "search summary_pattern (strip line) = Some [t, p, f]"
    and "fst (parse_result (strip line)
                (parse_status now' (strip line)
                   (st\<lparr>log_buffer :=
                         log_buffer st @ [\<lparr>log_timestamp = now, raw = strip line\<rparr>]\<rparr>))) = None"
    and "py_int t = Inr a" and "py_int p = Inr b" and "py_int f = Inr c"
    and "0 < a"
    and "int_true_divide b a = Inl e"
  shows "fst (parse_rtt_line now now' line st) = Inl e"
proof -
  from assms(1) have "strip line \<noteq> []"
    by (auto simp: search_empty)
  then show ?thesis
    using assms by (simp add: parse_rtt_line_nonempty parse_summary_or_log_def Let_def)
qed

lemma parse_rtt_line_summary_too_long:
  assumes "search summary_pattern (strip line) = Some [t, p, f]"
    and "int_max_str_digits < length t \<or> int_max_str_digits < length p
         \<or> int_max_str_digits < length f"
  shows "\<exists>m. fst (parse_rtt_line now now' line st) = Inl (ValueError m)"
proof -
  let ?l = "strip line"
  let ?r = "parse_result ?l
              (parse_status now' ?l
                 (st\<lparr>log_buffer := log_buffer st @ [\<lparr>log_timestamp = now, raw = ?l\<rparr>]\<rparr>))"
  from assms(1) have ne: "?l \<noteq> []"
    by (auto simp: search_empty)
  show ?thesis
  proof (cases "fst ?r")
    case (Some e)
    from parse_result_error [OF Some] obtain m where "e = ValueError m"
      by blast
    with ne Some show ?thesis
      by (simp add: parse_rtt_line_nonempty)
  next
    case None
    have "\<exists>m. fst (parse_summary_or_log ?l (snd ?r)) = Inl (ValueError m)"
      using assms
      by (auto simp: parse_summary_or_log_def Let_def py_int_def split: sum.splits)
    with ne None show ?thesis
      by (simp add: parse_rtt_line_nonempty)
  qed
qed

lemma search_summary_huge:
  "search summary_pattern (strip (''SUMMARY:1:1'' @ replicate 309 CHR ''0'' @ '':0''))
     = Some [''1'', ''1'' @ replicate 309 CHR ''0'', ''0'']"
  by code_simp

lemma int_of_digits_huge: "int_of_digits (''1'' @ replicate 309 CHR ''0'') = 10 ^ 309"
  by code_simp

lemma int_of_digits_one: "int_of_digits ''1'' = 1"
  by code_simp

lemma int_true_divide_huge:
  "int_true_divide (10 ^ 309) 1
     = Inl (OverflowError ''integer division result too large for a float'')"
  by code_simp

lemma summary_in_status_line:
  "search summary_pattern (strip ''STATUS:TEST_PASS:SUMMARY:1:1:0'') = Some [''1'', ''1'', ''0'']
   \<and> test_results init_monitor = []
   \<and> test_results
        (snd (parse_rtt_line ''T0'' ''T1'' ''STATUS:TEST_PASS:SUMMARY:1:1:0'' init_monitor))
       = [(''SUMMARY:1:1:0'', new_TestResult ''T1'' ''SUMMARY:1:1:0'' PASS)]"
  by code_simp

lemma search_summary_4301:
  "search summary_pattern (strip (''SUMMARY:0:0:'' @ replicate 4301 CHR ''0''))
     = Some [''0'', ''0'', replicate 4301 CHR ''0'']"
  by (simp only: strip_summary_long search_summary_long zero_less_numeral)

lemma search_summary_10_7_3:
  "search summary_pattern (strip ''SUMMARY:10:7:3'') = Some [''10'', ''7'', ''3'']"
  "search status_pattern (strip ''SUMMARY:10:7:3'') = None"
  "search result_pattern (strip ''SUMMARY:10:7:3'') = None"
  by code_simp+

lemma search_summary_0_0_0:
  "search summary_pattern (strip ''SUMMARY:0:0:0'') = Some [''0'', ''0'', ''0'']"
  "search result_pattern (strip ''SUMMARY:0:0:0'') = None"
  by code_simp+

lemma int_of_digits_small:
  "int_of_digits ''10'' = 10" "int_of_digits ''7'' = 7" "int_of_digits ''3'' = 3"
  "int_of_digits ''0'' = 0"
  by (simp_all add: int_of_digits_def)

lemma int_true_divide_7_10: "int_true_divide 7 10 = Inr (Float 6305039478318694 (- 53))"
  by code_simp

lemma float_mul_int_70:
  "float_mul_int (Float 6305039478318694 (- 53)) 100 = Float 4925812092436480 (- 46)"
  by code_simp

lemma float_value_70: "float_value 4925812092436480 (- 46) = 70"
  by (simp add: float_value_def power_int_minus)

text \<open>
  Claim C6, as stated, fails three times. The line \<^verbatim>\<open>STATUS:TEST_PASS:SUMMARY:1:1:0\<close>
  matches the summary pattern and the status pattern: the call creates the record
  \<^verbatim>\<open>SUMMARY:1:1:0\<close> in the empty registry. On the line \<^verbatim>\<open>SUMMARY:1:1\<close>, 309 zeros,
  \<^verbatim>\<open>:0\<close> the quotient \<^verbatim>\<open>passed / total\<close> is out of the range of a float: the call raises
  \<^verbatim>\<open>OverflowError\<close>. On the line \<^verbatim>\<open>SUMMARY:0:0:\<close> followed by 4301 zeros, \<^verbatim>\<open>int\<close>
  raises \<^verbatim>\<open>ValueError\<close> at line 123. In both cases the call returns nothing.
\<close>

theorem summary_line_counterexample:
  "search summary_pattern (strip ''STATUS:TEST_PASS:SUMMARY:1:1:0'') = Some [''1'', ''1'', ''0'']
   \<and> test_results init_monitor = []
   \<and> test_results
        (snd (parse_rtt_line ''T0'' ''T1'' ''STATUS:TEST_PASS:SUMMARY:1:1:0'' init_monitor))
       = [(''SUMMARY:1:1:0'', new_TestResult ''T1'' ''SUMMARY:1:1:0'' PASS)]
   \<and> search summary_pattern (strip (''SUMMARY:1:1'' @ replicate 309 CHR ''0'' @ '':0''))
       = Some [''1'', ''1'' @ replicate 309 CHR ''0'', ''0'']
   \<and> fst (parse_rtt_line ''T0'' ''T1'' (''SUMMARY:1:1'' @ replicate 309 CHR ''0'' @ '':0'')
            init_monitor)
       = Inl (OverflowError ''integer division result too large for a float'')
   \<and> search summary_pattern (strip (''SUMMARY:0:0:'' @ replicate 4301 CHR ''0''))
       = Some [''0'', ''0'', replicate 4301 CHR ''0'']
   \<and> (\<exists>m. fst (parse_rtt_line ''T0'' ''T1'' (''SUMMARY:0:0:'' @ replicate 4301 CHR ''0'')
                  init_monitor) = Inl (ValueError m))"
proof -
  let ?huge = "''SUMMARY:1:1'' @ replicate 309 CHR ''0'' @ '':0''"
  have strip_huge: "strip ?huge = ?huge"
    by (rule strip_unchanged) (simp_all add: is_space_def)
  have "length (strip ?huge) \<le> int_max_str_digits"
    unfolding strip_huge by (simp add: int_max_str_digits_def)
  then have noerr: "fst (parse_result (strip ?huge)
                 (parse_status ''T1'' (strip ?huge)
                    (init_monitor\<lparr>log_buffer :=
                       log_buffer init_monitor
                         @ [\<lparr>log_timestamp = ''T0'', raw = strip ?huge\<rparr>]\<rparr>))) = None"
    by (rule parse_result_short_line)
  have t: "py_int ''1'' = Inr 1"
    by (simp add: py_int_def int_max_str_digits_def int_of_digits_one)
  have p: "py_int (''1'' @ replicate 309 CHR ''0'') = Inr (10 ^ 309)"
    by (simp add: py_int_def int_max_str_digits_def int_of_digits_huge [simplified])
  have f: "py_int ''0'' = Inr 0"
    by (simp add: py_int_def int_max_str_digits_def int_of_digits_def)
  from parse_rtt_line_summary_raises
         [OF search_summary_huge noerr t p f zero_less_one int_true_divide_huge]
  have ovf: "fst (parse_rtt_line ''T0'' ''T1'' ?huge init_monitor)
               = Inl (OverflowError ''integer division result too large for a float'')" .
  have "int_max_str_digits < length ''0'' \<or> int_max_str_digits < length ''0''
        \<or> int_max_str_digits < length (replicate 4301 CHR ''0'')"
    by (simp add: int_max_str_digits_def)
  from parse_rtt_line_summary_too_long [OF search_summary_4301 this, of "''T0''" "''T1''" init_monitor]
  have val: "\<exists>m. fst (parse_rtt_line ''T0'' ''T1'' (''SUMMARY:0:0:'' @ replicate 4301 CHR ''0'')
                         init_monitor) = Inl (ValueError m)" .
  from summary_in_status_line search_summary_huge ovf search_summary_4301 val show ?thesis
    by (intro conjI) (elim conjE, assumption)+
qed

text \<open>
  Claim C6, amended. When the summary pattern finds \<^verbatim>\<open>SUMMARY:<total>:<passed>:<failed>\<close>
  in the stripped line, the three groups have at most 4300 digits, and so has the
  duration of a result message of the line, the call returns the three integers (the
  numbers that the decimal digits denote) with \<open>success_rate = 0\<close> (the integer) when
  \<open>total\<close> is 0, and, when \<open>total\<close> is positive and the float quotient
  \<^verbatim>\<open>passed / total\<close> exists, with the float \<^verbatim>\<open>passed / total * 100\<close> (\<^verbatim>\<open>SUMMARY:10:7:3\<close>
  gives \<open>70.0\<close>). The summary itself does not touch the registry: the registry after the
  call is the one the status and result stages produce, and the registry before the call
  when neither of these patterns matches the line. What the call does when the quotient
  overflows or a group is longer is left out.
\<close>

theorem summary_line_returns_run_summary:
  assumes "search summary_pattern (strip line) = Some [t, p, f]"
    and "length t \<le> int_max_str_digits" and "length p \<le> int_max_str_digits"
    and "length f \<le> int_max_str_digits"
    and "\<forall>gs. search result_pattern (strip line) = Some gs \<longrightarrow>
               length (gs ! 2) \<le> int_max_str_digits"
  shows "(int_of_digits t = 0 \<longrightarrow>
            fst (parse_rtt_line now now' line st)
              = Inr (Some \<lparr>total = 0, passed = int_of_digits p, failed = int_of_digits f,
                           success_rate = PyInt 0\<rparr>))
         \<and> (0 < int_of_digits t
              \<and> int_true_divide (int_of_digits p) (int_of_digits t) = Inr q \<longrightarrow>
            fst (parse_rtt_line now now' line st)
              = Inr (Some \<lparr>total = int_of_digits t, passed = int_of_digits p,
                           failed = int_of_digits f,
                           success_rate = PyFloat (float_mul_int q 100)\<rparr>))
         \<and> test_results (snd (parse_rtt_line now now' line st))
             = test_results (snd (parse_result (strip line) (parse_status now' (strip line) st)))
         \<and> (search status_pattern (strip line) = None
              \<and> search result_pattern (strip line) = None \<longrightarrow>
            test_results (snd (parse_rtt_line now now' line st)) = test_results st)
         \<and> int_of_digits t
             = (\<Sum>i<length t. (int (of_char (t ! i)) - 48) * 10 ^ (length t - Suc i))
         \<and> int_of_digits p
             = (\<Sum>i<length p. (int (of_char (p ! i)) - 48) * 10 ^ (length p - Suc i))
         \<and> int_of_digits f
             = (\<Sum>i<length f. (int (of_char (f ! i)) - 48) * 10 ^ (length f - Suc i))"
proof -
  let ?l = "strip line"
  let ?st0 = "st\<lparr>log_buffer := log_buffer st @ [\<lparr>log_timestamp = now, raw = ?l\<rparr>]\<rparr>"
  let ?st2 = "snd (parse_result ?l (parse_status now' ?l ?st0))"
  from assms(1) have ne: "?l \<noteq> []"
    by (auto simp: search_empty)
  have noerr: "fst (parse_result ?l (parse_status now' ?l ?st0)) = None"
    using assms(5) by (rule parse_result_no_error)
  have unfold: "parse_rtt_line now now' line st = parse_summary_or_log ?l ?st2"
    using ne noerr by (simp add: parse_rtt_line_nonempty)
  note ints = py_int_ok [OF assms(2)] py_int_ok [OF assms(3)] py_int_ok [OF assms(4)]
  have zero: "fst (parse_rtt_line now now' line st)
                = Inr (Some \<lparr>total = 0, passed = int_of_digits p, failed = int_of_digits f,
                             success_rate = PyInt 0\<rparr>)"
    if "int_of_digits t = 0"
    unfolding unfold using assms(1) that ints by (simp add: parse_summary_or_log_def Let_def)
  have rate: "fst (parse_rtt_line now now' line st)
                = Inr (Some \<lparr>total = int_of_digits t, passed = int_of_digits p,
                             failed = int_of_digits f,
                             success_rate = PyFloat (float_mul_int q 100)\<rparr>)"
    if "0 < int_of_digits t \<and> int_true_divide (int_of_digits p) (int_of_digits t) = Inr q"
    unfolding unfold using assms(1) that ints by (simp add: parse_summary_or_log_def Let_def)
  have reg: "test_results (snd (parse_rtt_line now now' line st))
               = test_results (snd (parse_result ?l (parse_status now' ?l st)))"
    using ne by (simp add: parse_rtt_line_test_results)
  have same: "test_results (snd (parse_rtt_line now now' line st)) = test_results st"
    if "search status_pattern ?l = None \<and> search result_pattern ?l = None"
    unfolding reg using that by (simp add: parse_result_test_results parse_status_test_results)
  show ?thesis
    using zero rate reg same int_of_digits_decimal [of t] int_of_digits_decimal [of p]
      int_of_digits_decimal [of f]
    by (intro conjI impI) blast+
qed

theorem summary_line_returns_run_summary_witness:
  "search summary_pattern (strip ''SUMMARY:10:7:3'') = Some [''10'', ''7'', ''3'']
   \<and> length ''10'' \<le> int_max_str_digits \<and> length ''7'' \<le> int_max_str_digits
   \<and> length ''3'' \<le> int_max_str_digits
   \<and> 0 < int_of_digits ''10''
   \<and> int_true_divide (int_of_digits ''7'') (int_of_digits ''10'')
       = Inr (Float 6305039478318694 (- 53))
   \<and> search status_pattern (strip ''SUMMARY:10:7:3'') = None
   \<and> search result_pattern (strip ''SUMMARY:10:7:3'') = None
   \<and> fst (parse_rtt_line ''T0'' ''T1'' ''SUMMARY:10:7:3'' init_monitor)
       = Inr (Some \<lparr>total = 10, passed = 7, failed = 3,
                    success_rate = PyFloat (Float 4925812092436480 (- 46))\<rparr>)
   \<and> float_value 4925812092436480 (- 46) = 70
   \<and> test_results (snd (parse_rtt_line ''T0'' ''T1'' ''SUMMARY:10:7:3'' init_monitor))
       = test_results init_monitor
   \<and> search summary_pattern (strip ''SUMMARY:0:0:0'') = Some [''0'', ''0'', ''0'']
   \<and> int_of_digits ''0'' = 0
   \<and> fst (parse_rtt_line ''T0'' ''T1'' ''SUMMARY:0:0:0'' init_monitor)
       = Inr (Some \<lparr>total = 0, passed = 0, failed = 0, success_rate = PyInt 0\<rparr>)"
proof -
  have len: "length ''10'' \<le> int_max_str_digits" "length ''7'' \<le> int_max_str_digits"
    "length ''3'' \<le> int_max_str_digits" "length ''0'' \<le> int_max_str_digits"
    by (simp_all add: int_max_str_digits_def)
  have r1: "\<forall>gs. search result_pattern (strip ''SUMMARY:10:7:3'') = Some gs \<longrightarrow>
                  length (gs ! 2) \<le> int_max_str_digits"
    by (simp add: search_summary_10_7_3)
  have r2: "\<forall>gs. search result_pattern (strip ''SUMMARY:0:0:0'') = Some gs \<longrightarrow>
                  length (gs ! 2) \<le> int_max_str_digits"
    by (simp add: search_summary_0_0_0)
  show ?thesis
    using summary_line_returns_run_summary
            [OF search_summary_10_7_3(1) len(1) len(2) len(3) r1,
             where q = "Float 6305039478318694 (- 53)"
               and now = "''T0''" and now' = "''T1''" and st = init_monitor]
          summary_line_returns_run_summary
            [OF search_summary_0_0_0(1) len(4) len(4) len(4) r2,
             where now = "''T0''" and now' = "''T1''" and st = init_monitor]
          len
    by (simp add: search_summary_10_7_3 search_summary_0_0_0 int_of_digits_small
          int_true_divide_7_10 float_mul_int_70 float_value_70
          parse_result_test_results parse_status_test_results)
qed

end
